theory Spec2Isabelle
  imports Complex_Main "HOL-Library.Log_Nat" "HOL-Library.Sublist"
begin

section \<open>Python numbers: binary64 floats and truncation\<close>

text \<open>
  \<^verbatim>\<open>trading_manager.py\<close> computes every derived amount in Python floats, for example
  \<^verbatim>\<open>int(price_estimate['token_amount_wei'] * (1 - slippage / 100))\<close>. A finite float is
  modelled by the rational number it denotes, and every float operation rounds its exact
  result to the nearest binary64 value, ties to even (\<open>fl\<close>). Results of magnitude
  \<open>2 ^ 1024\<close> or more (binade 1024 and above) are not finite; the operations below return the exception Python
  raises at the point where the source converts such a value (\<^verbatim>\<open>int(inf)\<close>,
  \<^verbatim>\<open>float(n)\<close> of a too large n). NaN and infinite inputs are outside the model.
\<close>

definition rne :: "rat \<Rightarrow> int" where
  "rne t = (let n = \<lfloor>t\<rfloor>; d = t - of_int n in
            if d < 1/2 then n else if 1/2 < d then n + 1 else if even n then n else n + 1)"

definition binade :: "rat \<Rightarrow> int" where
  "binade r = (if 1 \<le> r then bitlen \<lfloor>r\<rfloor> - 1 else - bitlen (\<lceil>1 / r\<rceil> - 1))"

definition ulp_exp :: "rat \<Rightarrow> int" where
  "ulp_exp r = max (binade \<bar>r\<bar>) (- 1022) - 52"

definition fl :: "rat \<Rightarrow> rat" where
  "fl r = (if r = 0 then 0 else of_int (rne (r / 2 powi ulp_exp r)) * 2 powi ulp_exp r)"

definition finite_float :: "rat \<Rightarrow> bool" where
  "finite_float y = (y = 0 \<or> binade \<bar>y\<bar> < 1024)"

datatype exn_class = ContractLogicError | ValidationError | OtherError

datatype exn = Exn exn_class string

fun exn_msg :: "exn \<Rightarrow> string" where
  "exn_msg (Exn c m) = m"

fun exn_cls :: "exn \<Rightarrow> exn_class" where
  "exn_cls (Exn c m) = c"

definition py_int :: "rat \<Rightarrow> int" where
  "py_int y = (if 0 \<le> y then \<lfloor>y\<rfloor> else \<lceil>y\<rceil>)"

definition py_float_of_int :: "int \<Rightarrow> exn + rat" where
  "py_float_of_int n =
     (let y = fl (of_int n) in
      if finite_float y then Inr y else Inl (Exn OtherError ''int too large to convert to float''))"

definition py_int_of_float :: "rat \<Rightarrow> exn + int" where
  "py_int_of_float y =
     (if finite_float y then Inr (py_int y)
      else Inl (Exn OtherError ''cannot convert float infinity to integer''))"

definition int_times_float :: "int \<Rightarrow> rat \<Rightarrow> exn + int" where
  "int_times_float n c =
     (case py_float_of_int n of
        Inl e \<Rightarrow> Inl e
      | Inr x \<Rightarrow> py_int_of_float (fl (x * c)))"

definition py_true_div :: "int \<Rightarrow> int \<Rightarrow> exn + rat" where
  "py_true_div a b =
     (if b = 0 then Inl (Exn OtherError ''division by zero'')
      else let y = fl (of_int a / of_int b) in
        if finite_float y then Inr y
        else Inl (Exn OtherError ''integer division result too large for a float''))"


section \<open>Strings: substring tests on exception messages\<close>

text \<open>
  The source classifies a failure by testing \<^verbatim>\<open>'...' in str(e)\<close>, after
  \<^verbatim>\<open>.upper()\<close> or \<^verbatim>\<open>.lower()\<close> for some signatures. Messages are modelled as
  ASCII text; \<open>sublist\<close> is Python's \<^verbatim>\<open>in\<close> on strings.
\<close>

definition upper_char :: "char \<Rightarrow> char" where
  "upper_char c = (let n = (of_char c :: nat) in if 97 \<le> n \<and> n \<le> 122 then char_of (n - 32) else c)"

definition lower_char :: "char \<Rightarrow> char" where
  "lower_char c = (let n = (of_char c :: nat) in if 65 \<le> n \<and> n \<le> 90 then char_of (n + 32) else c)"

definition upper :: "string \<Rightarrow> string" where
  "upper s = map upper_char s"

definition lower :: "string \<Rightarrow> string" where
  "lower s = map lower_char s"

definition has_panic :: "string \<Rightarrow> bool" where
  "has_panic m = sublist ''Panic error 0x11'' m"

definition has_insufficient_output :: "string \<Rightarrow> bool" where
  "has_insufficient_output m = sublist ''INSUFFICIENT_OUTPUT_AMOUNT'' (upper m)"

definition has_k :: "string \<Rightarrow> bool" where
  "has_k m = sublist ''UNISWAPV2: K'' (upper m)"

definition has_nonce_too_low :: "string \<Rightarrow> bool" where
  "has_nonce_too_low m = sublist ''nonce too low'' (lower m)"

fun digit_char :: "nat \<Rightarrow> char" where
  "digit_char n = char_of (48 + n mod 10)"

fun str_nat_aux :: "nat \<Rightarrow> nat \<Rightarrow> string \<Rightarrow> string" where
  "str_nat_aux 0 n acc = acc"
| "str_nat_aux (Suc k) n acc =
     (if n < 10 then digit_char n # acc else str_nat_aux k (n div 10) (digit_char n # acc))"

definition str_nat :: "nat \<Rightarrow> string" where
  "str_nat n = str_nat_aux (Suc n) n []"

section \<open>Programs: exceptions, early returns and the log of requests\<close>

text \<open>
  A block of the source is a function from the log of requests issued so far to an
  outcome and the extended log. An outcome is a value (the block ran to its end), a raised
  exception (\<^verbatim>\<open>raise\<close>, or a failing call), or a \<^verbatim>\<open>return\<close> of the enclosing method.
  \<open>try_except\<close> is \<^verbatim>\<open>try: ... except Exception as e: ...\<close>: it handles a raised
  exception and lets a value and a return pass.
\<close>

type_synonym address = string

datatype call =
    SwapExactETHForTokens address int "address list" address int
  | SwapExactTokensForETH address int int "address list" address int
  | Approve address address int

record transaction =
  tx_call :: call
  tx_from :: address
  tx_value :: int
  tx_gas :: int
  tx_gas_price :: int
  tx_nonce :: int

datatype event =
    GetCode address
  | GetAmountsOut int "address list"
  | Decimals address
  | BalanceOf address address
  | Allowance address address address
  | GetBlock
  | EstimateGas call address int
  | GasPrice
  | GetTransactionCount address bool
  | BuildTransaction transaction
  | SignTransaction transaction
  | SendRawTransaction transaction
  | Sleep nat
  | TimeNow

datatype ('a, 'r) outcome = Val 'a | Raise exn | Return 'r

type_synonym ('a, 'r) prog = "event list \<Rightarrow> ('a, 'r) outcome \<times> event list"

definition val :: "'a \<Rightarrow> ('a, 'r) prog" where
  "val x = (\<lambda>l. (Val x, l))"

definition raise :: "exn \<Rightarrow> ('a, 'r) prog" where
  "raise e = (\<lambda>l. (Raise e, l))"

definition ret :: "'r \<Rightarrow> ('a, 'r) prog" where
  "ret r = (\<lambda>l. (Return r, l))"

definition bind :: "('a, 'r) prog \<Rightarrow> ('a \<Rightarrow> ('b, 'r) prog) \<Rightarrow> ('b, 'r) prog" where
  "bind p f = (\<lambda>l. case p l of
                  (Val x, l') \<Rightarrow> f x l'
                | (Raise e, l') \<Rightarrow> (Raise e, l')
                | (Return r, l') \<Rightarrow> (Return r, l'))"

definition try_except :: "('a, 'r) prog \<Rightarrow> (exn \<Rightarrow> ('a, 'r) prog) \<Rightarrow> ('a, 'r) prog" where
  "try_except p h = (\<lambda>l. case p l of
                  (Raise e, l') \<Rightarrow> h e l'
                | (Val x, l') \<Rightarrow> (Val x, l')
                | (Return r, l') \<Rightarrow> (Return r, l'))"

definition lift :: "exn + 'a \<Rightarrow> ('a, 'r) prog" where
  "lift r = (case r of Inl e \<Rightarrow> raise e | Inr x \<Rightarrow> val x)"

definition lift_unit :: "exn option \<Rightarrow> (unit, 'r) prog" where
  "lift_unit r = (case r of Some e \<Rightarrow> raise e | None \<Rightarrow> val ())"

text \<open>A request to the node: the answer may depend on how many requests came before.\<close>

definition rpc :: "event \<Rightarrow> (nat \<Rightarrow> exn + 'a) \<Rightarrow> ('a, 'r) prog" where
  "rpc ev answer = (\<lambda>l. (case answer (length l) of Inl e \<Rightarrow> Raise e | Inr x \<Rightarrow> Val x, l @ [ev]))"

definition rpc_unit :: "event \<Rightarrow> (nat \<Rightarrow> exn option) \<Rightarrow> (unit, 'r) prog" where
  "rpc_unit ev answer = (\<lambda>l. (case answer (length l) of Some e \<Rightarrow> Raise e | None \<Rightarrow> Val (), l @ [ev]))"

text \<open>Calling a method: its \<^verbatim>\<open>return\<close> is the value of the call.\<close>

definition call_method :: "('r, 'r) prog \<Rightarrow> ('r, 's) prog" where
  "call_method p = (\<lambda>l. case p l of
                  (Val x, l') \<Rightarrow> (Val x, l')
                | (Raise e, l') \<Rightarrow> (Raise e, l')
                | (Return r, l') \<Rightarrow> (Val r, l'))"

text \<open>
  The node and the web3 library, as the engine sees them. The first argument of a request
  is the number of requests issued before it. The functions below the line are local
  library calls (address checks, unit conversion, binding a contract function, signing).
\<close>

record web3 =
  get_code :: "nat \<Rightarrow> address \<Rightarrow> exn + string"
  get_amounts_out :: "nat \<Rightarrow> int \<Rightarrow> address list \<Rightarrow> exn + int list"
  decimals :: "nat \<Rightarrow> address \<Rightarrow> exn + nat"
  balance_of :: "nat \<Rightarrow> address \<Rightarrow> address \<Rightarrow> exn + int"
  allowance :: "nat \<Rightarrow> address \<Rightarrow> address \<Rightarrow> address \<Rightarrow> exn + int"
  get_block_timestamp :: "nat \<Rightarrow> exn + int"
  estimate_gas :: "nat \<Rightarrow> call \<Rightarrow> address \<Rightarrow> int \<Rightarrow> exn + int"
  gas_price :: "nat \<Rightarrow> exn + int"
  get_transaction_count :: "nat \<Rightarrow> address \<Rightarrow> bool \<Rightarrow> exn + int"
  build_transaction :: "nat \<Rightarrow> transaction \<Rightarrow> exn option"
  send_raw_transaction :: "nat \<Rightarrow> transaction \<Rightarrow> exn + string"
  time_now :: "nat \<Rightarrow> int"
  sign_transaction :: "transaction \<Rightarrow> string \<Rightarrow> exn option"
  is_address :: "string \<Rightarrow> bool"
  to_checksum_address :: "string \<Rightarrow> exn + address"
  to_wei :: "rat \<Rightarrow> exn + int"
  from_wei :: "int \<Rightarrow> exn + rat"
  bind_function :: "call \<Rightarrow> exn option"

text \<open>The manager's dictionaries, filled by \<^verbatim>\<open>_initialize_contracts\<close>: the chains that have an entry.\<close>

record manager =
  web3_instances :: "string set"
  router_contracts :: "string \<rightharpoonup> address"
  trading_contracts :: "string \<rightharpoonup> address"

definition key_error :: "string \<Rightarrow> exn" where
  "key_error k = Exn OtherError ([CHR 0x27] @ k @ [CHR 0x27])"

definition lookup_set :: "string set \<Rightarrow> string \<Rightarrow> (unit, 'r) prog" where
  "lookup_set d k = (if k \<in> d then val () else raise (key_error k))"

definition lookup :: "(string \<rightharpoonup> 'a) \<Rightarrow> string \<Rightarrow> ('a, 'r) prog" where
  "lookup d k = (case d k of Some x \<Rightarrow> val x | None \<Rightarrow> raise (key_error k))"

text \<open>\<^verbatim>\<open>config.py\<close> and the addresses written in \<^verbatim>\<open>trading_manager.py\<close>.\<close>

definition wrapped_native :: "string \<Rightarrow> address option" where
  "wrapped_native chain =
     (if chain = ''BSC'' then Some ''0xBB4CdB9CBd36B01bD1cBaEBF2De08d9173bc095c''
      else if chain = ''ETH'' then Some ''0xC02aaA39b223FE8D0A0e5C4F27eAD9083C756Cc2''
      else if chain = ''SEPOLIA'' then Some ''0xfFf9976782d46CC05630D1f6eBAb18b2324d6B14''
      else None)"

definition trading_contract_address :: "string \<Rightarrow> address option" where
  "trading_contract_address chain =
     (if chain = ''BSC'' then Some ''0xec27f2173da0c7c7870a47bc545fa24ae72b7395''
      else if chain = ''ETH'' then Some ''0xdbd7b068e21f28ca3d904ca4720786e6d6b08d47''
      else if chain = ''SEPOLIA'' then Some ''0x0729E422d6a96c27a71239f5e2d4dFa4535e6996''
      else None)"

definition router_address :: "string \<Rightarrow> address" where
  "router_address chain =
     (if chain = ''BSC'' then ''0x10ED43C718714eb63d5aA57B78B54704E256024E''
      else if chain = ''ETH'' then ''0x7a250d5630B4cF539739dF2C5dAcb4c659F2488D''
      else ''0xeE567Fe1712Faf6149d80dA1E6934E354124CfE3'')"


section \<open>Results\<close>

text \<open>
  The methods return dictionaries. A failure \<^verbatim>\<open>{'success': False, 'error': ...}\<close> is
  modelled by one constructor for each message the source writes, with the values the
  message interpolates as arguments.
\<close>

datatype trade_error =
    ChainNotSupported string
  | ContractNotDeployed
  | ContractValidationError string
  | InvalidTokenAddress
  | InvalidAmount
  | NoPriceEstimate
  | UnsupportedChain string
  | ArithmeticError
  | InsufficientOutput
  | SevereLiquidity rat
  | BuildError string
  | RetryFailed string string
  | SendError string
  | InsufficientBalance rat
  | ApprovalFailed string
  | ContractError string
  | PoaChainError
  | ValidationFailed string
  | UnexpectedError string

record price_estimate =
  pe_bnb_amount :: rat
  pe_token_amount :: rat
  pe_token_amount_wei :: int
  pe_path :: "string list"
  pe_is_fallback :: bool

record sell_estimate =
  se_token_amount :: rat
  se_token_amount_wei :: int
  se_native_out :: rat
  se_native_out_wei :: int
  se_path :: "string list"

record buy_receipt =
  br_tx_hash :: string
  br_bnb_amount :: rat
  br_estimated_tokens :: rat
  br_min_tokens :: rat
  br_gas_estimate :: int
  br_path :: "string list"

record sell_receipt =
  sr_tx_hash :: string
  sr_token_amount :: rat
  sr_gas_estimate :: int
  sr_path :: "string list"

datatype result =
    Failure trade_error
  | BuySuccess buy_receipt
  | SellSuccess sell_receipt
  | AlreadyApproved
  | ApprovalSent string

section \<open>Quote Engine\<close>

definition float_times_int :: "rat \<Rightarrow> int \<Rightarrow> exn + int" where
  "float_times_int a n =
     (case py_float_of_int n of
        Inl e \<Rightarrow> Inl e
      | Inr x \<Rightarrow> py_int_of_float (fl (a * x)))"

text \<open>\<^verbatim>\<open>_get_fallback_price_estimate\<close> (lines 265-292).\<close>

definition get_fallback_price_estimate ::
  "manager \<Rightarrow> web3 \<Rightarrow> string \<Rightarrow> string \<Rightarrow> rat \<Rightarrow> (price_estimate option, price_estimate option) prog" where
  "get_fallback_price_estimate m w chain token_address bnb_amount =
     try_except
       (if chain \<notin> web3_instances m then ret None
        else
          bind (lift (to_wei w bnb_amount)) (\<lambda>bnb_amount_wei.
          let estimated_tokens = fl (bnb_amount * 1000) in
          bind (lift (if finite_float estimated_tokens then to_wei w estimated_tokens
                      else Inl (Exn OtherError ''cannot convert Infinity to integer''))) (\<lambda>wei.
          ret (Some \<lparr>pe_bnb_amount = bnb_amount, pe_token_amount = estimated_tokens,
                      pe_token_amount_wei = wei,
                      pe_path = [''WBNB'', take 20 token_address @ ''...''],
                      pe_is_fallback = True\<rparr>))))
       (\<lambda>e. ret None)"

text \<open>\<^verbatim>\<open>get_token_price_estimate\<close> (lines 161-263).\<close>

definition get_token_price_estimate ::
  "manager \<Rightarrow> web3 \<Rightarrow> string \<Rightarrow> string \<Rightarrow> rat \<Rightarrow> (price_estimate option, price_estimate option) prog" where
  "get_token_price_estimate m w chain token_address bnb_amount =
     try_except
       (if router_contracts m chain = None then ret None
        else
          bind (lookup_set (web3_instances m) chain) (\<lambda>_.
          bind (lookup (router_contracts m) chain) (\<lambda>router.
          bind (lift (to_wei w bnb_amount)) (\<lambda>bnb_amount_wei.
          case wrapped_native chain of
            None \<Rightarrow> ret None
          | Some wbnb_address \<Rightarrow>
              bind (lift (to_checksum_address w wbnb_address)) (\<lambda>p0.
              bind (lift (to_checksum_address w token_address)) (\<lambda>p1.
              let path = [p0, p1] in
              if \<not> is_address w wbnb_address then ret None
              else if \<not> is_address w token_address then ret None
              else
                bind (try_except
                        (rpc (GetAmountsOut bnb_amount_wei path)
                           (\<lambda>t. get_amounts_out w t bnb_amount_wei path))
                        (\<lambda>e. ret None)) (\<lambda>amounts_out.
                if 2 \<le> length amounts_out then
                  let token_amount_wei = amounts_out ! 1 in
                  bind (try_except
                          (bind (lift (to_checksum_address w token_address)) (\<lambda>a.
                           bind (rpc (Decimals a) (\<lambda>t. decimals w t a)) (\<lambda>d.
                           lift (py_true_div token_amount_wei (10 ^ d)))))
                          (\<lambda>e. lift (from_wei w token_amount_wei))) (\<lambda>token_amount.
                  ret (Some \<lparr>pe_bnb_amount = bnb_amount, pe_token_amount = token_amount,
                              pe_token_amount_wei = token_amount_wei, pe_path = path,
                              pe_is_fallback = False\<rparr>))
                else ret None)))))))
       (\<lambda>e. bind (call_method (get_fallback_price_estimate m w chain token_address bnb_amount))
               (\<lambda>fallback_estimate.
                  case fallback_estimate of Some f \<Rightarrow> ret (Some f) | None \<Rightarrow> ret None))"

text \<open>\<^verbatim>\<open>get_token_sell_estimate\<close> (lines 294-341).\<close>

definition get_token_sell_estimate ::
  "manager \<Rightarrow> web3 \<Rightarrow> string \<Rightarrow> string \<Rightarrow> rat \<Rightarrow> (sell_estimate option, sell_estimate option) prog" where
  "get_token_sell_estimate m w chain token_address token_amount =
     try_except
       (if router_contracts m chain = None then ret None
        else
          bind (lookup_set (web3_instances m) chain) (\<lambda>_.
          bind (lookup (router_contracts m) chain) (\<lambda>router.
          case wrapped_native chain of
            None \<Rightarrow> ret None
          | Some wrapped \<Rightarrow>
              bind (lift (to_checksum_address w token_address)) (\<lambda>a.
              bind (try_except (rpc (Decimals a) (\<lambda>t. decimals w t a)) (\<lambda>e. val 18)) (\<lambda>d.
              bind (lift (float_times_int token_amount (10 ^ d))) (\<lambda>amount_in_wei.
              bind (lift (to_checksum_address w token_address)) (\<lambda>p0.
              bind (lift (to_checksum_address w wrapped)) (\<lambda>p1.
              let path = [p0, p1] in
              bind (rpc (GetAmountsOut amount_in_wei path)
                      (\<lambda>t. get_amounts_out w t amount_in_wei path)) (\<lambda>amounts_out.
              if length amounts_out < 2 then ret None
              else
                let native_out_wei = last amounts_out in
                bind (lift (from_wei w native_out_wei)) (\<lambda>dec.
                ret (Some \<lparr>se_token_amount = token_amount, se_token_amount_wei = amount_in_wei,
                            se_native_out = fl dec, se_native_out_wei = native_out_wei,
                            se_path = path\<rparr>)))))))))))
       (\<lambda>e. ret None)"


section \<open>Slippage Guard\<close>

text \<open>
  Lines 388-392 of \<^verbatim>\<open>buy_tokens\<close> and 762-765 of \<^verbatim>\<open>sell_tokens\<close> (the same code on
  \<^verbatim>\<open>token_amount_wei\<close> and on \<^verbatim>\<open>native_out_wei\<close>); \<open>slippage\<close> is a percentage:
  \<^verbatim>\<open>min_tokens = int(out * (1 - slippage / 100))\<close>
  \<^verbatim>\<open>if min_tokens <= 0: min_tokens = int(out * 0.95)\<close>
\<close>

definition slippage_guard :: "int \<Rightarrow> rat \<Rightarrow> exn + int" where
  "slippage_guard out slippage =
     (case int_times_float out (fl (1 - fl (slippage / 100))) of
        Inl e \<Rightarrow> Inl e
      | Inr min_tokens \<Rightarrow>
          if min_tokens \<le> 0 then int_times_float out (fl (95 / 100)) else Inr min_tokens)"

text \<open>Lines 760-773 of \<^verbatim>\<open>sell_tokens\<close>: without a sell estimate the minimum is 0.\<close>

definition sell_min_native :: "sell_estimate option \<Rightarrow> rat \<Rightarrow> exn + int" where
  "sell_min_native sell_estimate slippage =
     (case sell_estimate of
        Some est \<Rightarrow> slippage_guard (se_native_out_wei est) slippage
      | None \<Rightarrow> Inr 0)"

section \<open>Building the swap call, estimating gas\<close>

definition check_trading_contract :: "web3 \<Rightarrow> address \<Rightarrow> (unit, result) prog" where
  "check_trading_contract w addr =
     try_except
       (bind (rpc (GetCode addr) (\<lambda>t. get_code w t addr)) (\<lambda>contract_code.
          if contract_code = [] then ret (Failure ContractNotDeployed) else val ()))
       (\<lambda>e. ret (Failure (ContractValidationError (exn_msg e))))"

definition get_deadline :: "web3 \<Rightarrow> (int, 'r) prog" where
  "get_deadline w =
     try_except
       (bind (rpc GetBlock (get_block_timestamp w)) (\<lambda>ts. val (ts + 1200)))
       (\<lambda>e. bind (rpc TimeNow (\<lambda>t. Inr (time_now w t))) (\<lambda>now. val (now + 1200)))"

definition bind_call :: "web3 \<Rightarrow> call \<Rightarrow> (call, 'r) prog" where
  "bind_call w c = bind (lift_unit (bind_function w c)) (\<lambda>_. val c)"

text \<open>
  \<^verbatim>\<open>try: f = trading_contract.functions.swap...(...) except Exception: router = ...;
  f = router.functions.swap...(...)\<close> (lines 434-453, 776-797). The local variable
  \<^verbatim>\<open>router\<close> is assigned only in the handler; the result carries it.
\<close>

definition swap_function_with_fallback ::
  "manager \<Rightarrow> web3 \<Rightarrow> string \<Rightarrow> address \<Rightarrow> (address \<Rightarrow> call) \<Rightarrow> (call \<times> address option, 'r) prog" where
  "swap_function_with_fallback m w chain trading_contract mk =
     try_except
       (bind (bind_call w (mk trading_contract)) (\<lambda>f. val (f, None)))
       (\<lambda>e. bind (lookup (router_contracts m) chain) (\<lambda>router.
              bind (bind_call w (mk router)) (\<lambda>f. val (f, Some router))))"

text \<open>
  The rebuilds of the retries (lines 478-491, 506-519, 599-612 and their sell twins) name
  \<^verbatim>\<open>router\<close> in their handler; reading it unassigned raises UnboundLocalError.
\<close>

definition unbound_router :: exn where
  "unbound_router = Exn OtherError
     ''cannot access local variable 'router' where it is not associated with a value''"

definition rebuild_swap_function ::
  "web3 \<Rightarrow> address \<Rightarrow> address option \<Rightarrow> (address \<Rightarrow> call) \<Rightarrow> (call, 'r) prog" where
  "rebuild_swap_function w trading_contract router mk =
     try_except
       (bind_call w (mk trading_contract))
       (\<lambda>e. case router of
                None \<Rightarrow> raise unbound_router
              | Some r \<Rightarrow> bind_call w (mk r))"

definition estimate :: "web3 \<Rightarrow> call \<Rightarrow> address \<Rightarrow> int \<Rightarrow> (int, 'r) prog" where
  "estimate w f sender v = rpc (EstimateGas f sender v) (\<lambda>t. estimate_gas w t f sender v)"

text \<open>
  Gas estimation with its retries: lines 455-533 of \<^verbatim>\<open>buy_tokens\<close> and 799-881 of
  \<^verbatim>\<open>sell_tokens\<close>, which differ in the swap call (\<open>mk\<close>, from the minimum output and the
  contract), in the sender and value of the simulation, and in the amount of the suggestion.
  The assignment \<^verbatim>\<open>gas_estimate = 300000\<close> closes the handler, after the
  \<^verbatim>\<open>if/elif/else\<close>, so it also follows a retry that succeeded.
\<close>

definition estimate_gas_with_retry ::
  "web3 \<Rightarrow> call \<Rightarrow> (int \<Rightarrow> address \<Rightarrow> call) \<Rightarrow> address \<Rightarrow> address option \<Rightarrow> int \<Rightarrow>
   address \<Rightarrow> int \<Rightarrow> rat \<Rightarrow> (int, result) prog" where
  "estimate_gas_with_retry w swap_function mk trading_contract router min_out sender v amount =
     try_except
       (estimate w swap_function sender v)
       (\<lambda>e. let error_msg = exn_msg e in
          if has_panic error_msg then ret (Failure ArithmeticError)
          else if has_insufficient_output error_msg then ret (Failure InsufficientOutput)
          else
            bind (if has_k error_msg then
                    try_except
                      (bind (lift (int_times_float min_out (fl (70 / 100)))) (\<lambda>min_retry.
                       bind (rebuild_swap_function w trading_contract router (mk min_retry)) (\<lambda>f.
                       bind (estimate w f sender v) (\<lambda>g. val ()))))
                      (\<lambda>e2.
                         try_except
                           (bind (lift (int_times_float min_out (fl (50 / 100)))) (\<lambda>min_retry2.
                            bind (rebuild_swap_function w trading_contract router (mk min_retry2)) (\<lambda>f.
                            bind (estimate w f sender v) (\<lambda>g. val ()))))
                           (\<lambda>e3. ret (Failure (SevereLiquidity (fl (amount * fl (1 / 10)))))))
                  else val ())
              (\<lambda>_. val 300000))"

section \<open>Gas price and nonce\<close>

text \<open>Lines 535-544 and 883-892: 150 percent of the node's price, with defaults in wei.\<close>

definition boosted_gas_price :: "web3 \<Rightarrow> string \<Rightarrow> (int, 'r) prog" where
  "boosted_gas_price w chain =
     try_except
       (bind (rpc GasPrice (gas_price w)) (\<lambda>current_gas_price.
          lift (int_times_float current_gas_price (fl (3 / 2)))))
       (\<lambda>e. val (if chain = ''ETH'' then 20000000000 else 10000000000))"

text \<open>Lines 546-557, 894-905 and 1192-1203.\<close>

definition resolve_nonce :: "web3 \<Rightarrow> address \<Rightarrow> (int, 'r) prog" where
  "resolve_nonce w user =
     try_except
       (rpc (GetTransactionCount user True) (\<lambda>t. get_transaction_count w t user True))
       (\<lambda>e. try_except
                (rpc (GetTransactionCount user False) (\<lambda>t. get_transaction_count w t user False))
                (\<lambda>e2. val 0))"

section \<open>Transaction Submitter\<close>

definition build :: "web3 \<Rightarrow> transaction \<Rightarrow> (transaction, 'r) prog" where
  "build w tx = bind (rpc_unit (BuildTransaction tx) (\<lambda>t. build_transaction w t tx)) (\<lambda>_. val tx)"

definition sign :: "web3 \<Rightarrow> transaction \<Rightarrow> string \<Rightarrow> (transaction, 'r) prog" where
  "sign w tx private_key =
     bind (rpc_unit (SignTransaction tx) (\<lambda>t. sign_transaction w tx private_key)) (\<lambda>_. val tx)"

definition send :: "web3 \<Rightarrow> transaction \<Rightarrow> (string, 'r) prog" where
  "send w tx = rpc (SendRawTransaction tx) (\<lambda>t. send_raw_transaction w t tx)"

text \<open>
  \<^verbatim>\<open>_send_transaction_with_retry\<close> (lines 1258-1290). The loop
  \<^verbatim>\<open>for attempt in range(max_retries)\<close> is a recursion on the attempts left; the
  attempt's index is \<open>max_retries - Suc n\<close>.
\<close>

fun send_attempts :: "web3 \<Rightarrow> transaction \<Rightarrow> nat \<Rightarrow> nat \<Rightarrow> (string, string) prog" where
  "send_attempts w signed_txn max_retries 0 =
     raise (Exn OtherError (''Transaction failed after '' @ str_nat max_retries @ '' attempts''))"
| "send_attempts w signed_txn max_retries (Suc n) =
     (let attempt = max_retries - Suc n in
      try_except
        (bind (send w signed_txn) (\<lambda>tx_hash. ret tx_hash))
        (\<lambda>e. let error_msg = exn_msg e in
           if has_nonce_too_low error_msg then
             if int attempt < int max_retries - 1 then
               bind (rpc (Sleep 2) (\<lambda>t. Inr ())) (\<lambda>_. send_attempts w signed_txn max_retries n)
             else raise (Exn OtherError
                    (''Nonce issue after '' @ str_nat max_retries @ '' attempts: '' @ error_msg))
           else raise e))"

definition send_transaction_with_retry :: "web3 \<Rightarrow> transaction \<Rightarrow> nat \<Rightarrow> (string, string) prog" where
  "send_transaction_with_retry w signed_txn max_retries =
     send_attempts w signed_txn max_retries max_retries"

text \<open>
  The name of the rejection in the message of a failed retry: line 587 of \<^verbatim>\<open>buy_tokens\<close>
  tests for the insufficient-output signature first, line 936 of \<^verbatim>\<open>sell_tokens\<close> for the
  pool-invariant signature first.
\<close>

definition error_type :: "bool \<Rightarrow> string \<Rightarrow> string" where
  "error_type is_buy m =
     (if is_buy then (if has_insufficient_output m then ''INSUFFICIENT_OUTPUT_AMOUNT'' else ''UniswapV2: K'')
      else (if has_k m then ''UniswapV2: K'' else ''INSUFFICIENT_OUTPUT_AMOUNT''))"

text \<open>
  Sending with one rebuild (lines 583-627 of \<^verbatim>\<open>buy_tokens\<close>, 931-978 of
  \<^verbatim>\<open>sell_tokens\<close>). \<open>sender\<close> is the sending routine of the path: a plain
  \<^verbatim>\<open>send_raw_transaction\<close> for a buy, \<^verbatim>\<open>_send_transaction_with_retry\<close> for a sell.
\<close>

definition send_with_rebuild ::
  "web3 \<Rightarrow> (transaction \<Rightarrow> (string, result) prog) \<Rightarrow> bool \<Rightarrow> transaction \<Rightarrow>
   (int \<Rightarrow> address \<Rightarrow> call) \<Rightarrow> address \<Rightarrow> address option \<Rightarrow> int \<Rightarrow> int \<Rightarrow> string \<Rightarrow>
   (string, result) prog" where
  "send_with_rebuild w sender is_buy signed_txn mk trading_contract router min_out gas_estimate
     private_key =
     try_except
       (sender signed_txn)
       (\<lambda>e. let m = exn_msg e in
          if has_insufficient_output m \<or> has_k m then
            bind (lift (if has_k m then int_times_float min_out (fl (80 / 100))
                        else int_times_float min_out (fl (85 / 100)))) (\<lambda>min_retry.
            try_except
              (bind (rebuild_swap_function w trading_contract router (mk min_retry)) (\<lambda>f.
               bind (lift (int_times_float gas_estimate (fl (16 / 10)))) (\<lambda>gas.
               bind (build w (signed_txn\<lparr>tx_call := f, tx_gas := gas\<rparr>)) (\<lambda>transaction_retry.
               bind (sign w transaction_retry private_key) (\<lambda>signed_txn_retry.
               sender signed_txn_retry)))))
              (\<lambda>e2. ret (Failure (RetryFailed (error_type is_buy m) (exn_msg e2)))))
          else ret (Failure (SendError m)))"


section \<open>The handlers that close a trade\<close>

text \<open>
  \<^verbatim>\<open>except ContractLogicError / except ValidationError / except Exception\<close> at the end of
  \<^verbatim>\<open>buy_tokens\<close> (lines 639-650) and \<^verbatim>\<open>sell_tokens\<close> (lines 988-996); only the buy
  tests for the POA message.
\<close>

definition trade_handlers :: "bool \<Rightarrow> exn \<Rightarrow> result" where
  "trade_handlers is_buy e =
     (case exn_cls e of
        ContractLogicError \<Rightarrow> Failure (ContractError (exn_msg e))
      | ValidationError \<Rightarrow>
          if is_buy \<and> sublist ''extraData'' (exn_msg e) \<and> sublist ''POA'' (exn_msg e)
          then Failure PoaChainError
          else Failure (ValidationFailed (exn_msg e))
      | OtherError \<Rightarrow> Failure (UnexpectedError (exn_msg e)))"

definition run_trade :: "bool \<Rightarrow> (result, result) prog \<Rightarrow> event list \<Rightarrow> result \<times> event list" where
  "run_trade is_buy body = (\<lambda>l. case body l of
       (Val r, l') \<Rightarrow> (r, l')
     | (Return r, l') \<Rightarrow> (r, l')
     | (Raise e, l') \<Rightarrow> (trade_handlers is_buy e, l'))"

section \<open>Buying\<close>

text \<open>
  \<^verbatim>\<open>buy_tokens\<close>, lines 546-637: the nonce, the transaction, its signature, the send
  and the receipt.
\<close>

definition buy_submit ::
  "web3 \<Rightarrow> call \<Rightarrow> (int \<Rightarrow> address \<Rightarrow> call) \<Rightarrow> address \<Rightarrow> address option \<Rightarrow> int \<Rightarrow> int \<Rightarrow>
   int \<Rightarrow> address \<Rightarrow> int \<Rightarrow> string \<Rightarrow> rat \<Rightarrow> rat \<Rightarrow> string list \<Rightarrow> (result, result) prog" where
  "buy_submit w swap_function mk trading_contract router min_tokens gas_estimate price
     user_address_checksum bnb_amount_wei private_key bnb_amount estimated_tokens path =
     bind (resolve_nonce w user_address_checksum) (\<lambda>nonce.
     bind (try_except
             (bind (lift (int_times_float gas_estimate (fl (15 / 10)))) (\<lambda>gas.
              build w \<lparr>tx_call = swap_function, tx_from = user_address_checksum,
                       tx_value = bnb_amount_wei, tx_gas = gas, tx_gas_price = price,
                       tx_nonce = nonce\<rparr>))
             (\<lambda>e. ret (Failure (BuildError (exn_msg e))))) (\<lambda>transaction.
     bind (sign w transaction private_key) (\<lambda>signed_txn.
     bind (send_with_rebuild w (send w) True signed_txn mk trading_contract router min_tokens
             gas_estimate private_key) (\<lambda>tx_hash.
     bind (lift (from_wei w min_tokens)) (\<lambda>min_tokens_dec.
     ret (BuySuccess \<lparr>br_tx_hash = tx_hash, br_bnb_amount = bnb_amount,
                       br_estimated_tokens = estimated_tokens,
                       br_min_tokens = min_tokens_dec, br_gas_estimate = gas_estimate,
                       br_path = path\<rparr>))))))"

text \<open>\<^verbatim>\<open>buy_tokens\<close>, lines 380-637: from the Slippage Guard on.\<close>

definition buy_with_estimate ::
  "manager \<Rightarrow> web3 \<Rightarrow> string \<Rightarrow> address \<Rightarrow> string \<Rightarrow> rat \<Rightarrow> string \<Rightarrow> string \<Rightarrow> rat \<Rightarrow>
   price_estimate \<Rightarrow> (result, result) prog" where
  "buy_with_estimate m w chain trading_contract token_address bnb_amount user_address private_key
     slippage price_estimate =
     bind (lift (slippage_guard (pe_token_amount_wei price_estimate) slippage)) (\<lambda>min_tokens.
     bind (lift (to_wei w bnb_amount)) (\<lambda>bnb_amount_wei.
     case wrapped_native chain of
       None \<Rightarrow> ret (Failure (UnsupportedChain chain))
     | Some wbnb_address \<Rightarrow>
         bind (lift (to_checksum_address w wbnb_address)) (\<lambda>p0.
         bind (lift (to_checksum_address w token_address)) (\<lambda>p1.
         let path = [p0, p1] in
         bind (lift (to_checksum_address w user_address)) (\<lambda>user_address_checksum.
         bind (get_deadline w) (\<lambda>deadline.
         let mk = (\<lambda>min_out contract.
                     SwapExactETHForTokens contract min_out path user_address_checksum deadline) in
         bind (swap_function_with_fallback m w chain trading_contract (mk min_tokens))
           (\<lambda>(swap_function, router).
         bind (estimate_gas_with_retry w swap_function mk trading_contract router min_tokens
                 user_address_checksum bnb_amount_wei bnb_amount) (\<lambda>gas_estimate.
         bind (boosted_gas_price w chain) (\<lambda>gas_price.
         buy_submit w swap_function mk trading_contract router min_tokens gas_estimate gas_price
           user_address_checksum bnb_amount_wei private_key bnb_amount
           (pe_token_amount price_estimate) path)))))))))"

definition buy_tokens_body ::
  "manager \<Rightarrow> web3 \<Rightarrow> string \<Rightarrow> string \<Rightarrow> rat \<Rightarrow> string \<Rightarrow> string \<Rightarrow> rat option \<Rightarrow>
   (result, result) prog" where
  "buy_tokens_body m w chain token_address bnb_amount user_address private_key slippage_opt =
     (if trading_contracts m chain = None then ret (Failure (ChainNotSupported chain))
      else
        let slippage = (case slippage_opt of None \<Rightarrow> 1 / 2 | Some s \<Rightarrow> s) in
        bind (lookup_set (web3_instances m) chain) (\<lambda>_.
        bind (lookup (trading_contracts m) chain) (\<lambda>trading_contract.
        bind (check_trading_contract w trading_contract) (\<lambda>_.
        if \<not> is_address w token_address then ret (Failure InvalidTokenAddress)
        else if bnb_amount \<le> 0 then ret (Failure InvalidAmount)
        else
          bind (call_method (get_token_price_estimate m w chain token_address bnb_amount))
            (\<lambda>estimate_opt.
          case estimate_opt of
            None \<Rightarrow> ret (Failure NoPriceEstimate)
          | Some price_estimate \<Rightarrow>
              buy_with_estimate m w chain trading_contract token_address bnb_amount user_address
                private_key slippage price_estimate)))))"

definition buy_tokens ::
  "manager \<Rightarrow> web3 \<Rightarrow> string \<Rightarrow> string \<Rightarrow> rat \<Rightarrow> string \<Rightarrow> string \<Rightarrow> rat option \<Rightarrow>
   event list \<Rightarrow> result \<times> event list" where
  "buy_tokens m w chain token_address bnb_amount user_address private_key slippage_opt =
     run_trade True
       (buy_tokens_body m w chain token_address bnb_amount user_address private_key slippage_opt)"

section \<open>Approval Gate\<close>

text \<open>
  \<^verbatim>\<open>_ensure_token_approval_for_contract\<close>, lines 1192-1228: the nonce, the approve
  transaction, its signature and the send.
\<close>

definition approval_submit ::
  "web3 \<Rightarrow> call \<Rightarrow> int \<Rightarrow> int \<Rightarrow> string \<Rightarrow> string \<Rightarrow> (result, result) prog" where
  "approval_submit w approve_function gas_estimate price user_address private_key =
     bind (resolve_nonce w user_address) (\<lambda>nonce.
     bind (lift (to_checksum_address w user_address)) (\<lambda>sender.
     bind (lift (int_times_float gas_estimate (fl (12 / 10)))) (\<lambda>gas.
     bind (build w \<lparr>tx_call = approve_function, tx_from = sender, tx_value = 0,
                    tx_gas = gas, tx_gas_price = price, tx_nonce = nonce\<rparr>)
       (\<lambda>transaction.
     bind (sign w transaction private_key) (\<lambda>signed_txn.
     bind (send w signed_txn) (\<lambda>tx_hash.
     ret (ApprovalSent tx_hash)))))))"

text \<open>\<^verbatim>\<open>_ensure_token_approval_for_contract\<close> (lines 1143-1232).\<close>

definition ensure_token_approval_for_contract ::
  "manager \<Rightarrow> web3 \<Rightarrow> string \<Rightarrow> string \<Rightarrow> string \<Rightarrow> string \<Rightarrow> int \<Rightarrow> string \<Rightarrow>
   (result, result) prog" where
  "ensure_token_approval_for_contract m w chain token_address user_address private_key amount
     spender_address =
     try_except
       (if chain \<notin> web3_instances m then ret (Failure (ChainNotSupported chain))
        else
          bind (lift (to_checksum_address w token_address)) (\<lambda>token.
          bind (lift (to_checksum_address w user_address)) (\<lambda>owner.
          bind (lift (to_checksum_address w spender_address)) (\<lambda>spender.
          bind (rpc (Allowance token owner spender) (\<lambda>t. allowance w t token owner spender))
            (\<lambda>current_allowance.
          if amount \<le> current_allowance then ret AlreadyApproved
          else
            bind (lift (to_checksum_address w spender_address)) (\<lambda>spender2.
            bind (bind_call w (Approve token spender2 amount)) (\<lambda>approve_function.
            bind (try_except
                    (bind (lift (to_checksum_address w user_address)) (\<lambda>sender.
                       estimate w approve_function sender 0))
                    (\<lambda>e. val 50000)) (\<lambda>gas_estimate.
            bind (try_except (rpc GasPrice (gas_price w)) (\<lambda>e. val 5000000000)) (\<lambda>gas_price.
            approval_submit w approve_function gas_estimate gas_price user_address
              private_key)))))))))
       (\<lambda>e. ret (Failure (ApprovalFailed (exn_msg e))))"

section \<open>Selling\<close>

text \<open>\<^verbatim>\<open>_get_token_balance\<close> (lines 1102-1135).\<close>

definition get_token_balance :: "manager \<Rightarrow> web3 \<Rightarrow> string \<Rightarrow> string \<Rightarrow> string \<Rightarrow> (rat, rat) prog" where
  "get_token_balance m w chain token_address user_address =
     try_except
       (if chain \<notin> web3_instances m then ret 0
        else
          bind (lift (to_checksum_address w token_address)) (\<lambda>token.
          bind (lift (to_checksum_address w user_address)) (\<lambda>owner.
          bind (rpc (BalanceOf token owner) (\<lambda>t. balance_of w t token owner)) (\<lambda>balance_wei.
          bind (try_except
                  (bind (lift (to_checksum_address w token_address)) (\<lambda>a.
                   bind (rpc (Decimals a) (\<lambda>t. decimals w t a)) (\<lambda>d.
                   lift (py_true_div balance_wei (10 ^ d)))))
                  (\<lambda>e. lift (from_wei w balance_wei))) (\<lambda>balance.
          ret (fl balance))))))
       (\<lambda>e. ret 0)"

text \<open>
  \<^verbatim>\<open>sell_tokens\<close>, lines 894-986: the nonce, the transaction, its signature, the send
  and the receipt.
\<close>

definition sell_submit ::
  "web3 \<Rightarrow> call \<Rightarrow> (int \<Rightarrow> address \<Rightarrow> call) \<Rightarrow> address \<Rightarrow> address option \<Rightarrow> int \<Rightarrow> int \<Rightarrow>
   int \<Rightarrow> string \<Rightarrow> string \<Rightarrow> rat \<Rightarrow> string list \<Rightarrow> (result, result) prog" where
  "sell_submit w swap_function mk trading_contract router min_native gas_estimate price
     user_address private_key token_amount path =
     bind (resolve_nonce w user_address) (\<lambda>nonce.
     bind (lift (int_times_float gas_estimate (fl (12 / 10)))) (\<lambda>gas.
     bind (build w \<lparr>tx_call = swap_function, tx_from = user_address, tx_value = 0,
                    tx_gas = gas, tx_gas_price = price, tx_nonce = nonce\<rparr>)
       (\<lambda>transaction.
     bind (sign w transaction private_key) (\<lambda>signed_txn.
     bind (send_with_rebuild w (\<lambda>tx. call_method (send_transaction_with_retry w tx 3)) False
             signed_txn mk trading_contract router min_native gas_estimate private_key)
       (\<lambda>tx_hash.
     ret (SellSuccess \<lparr>sr_tx_hash = tx_hash, sr_token_amount = token_amount,
                        sr_gas_estimate = gas_estimate, sr_path = path\<rparr>))))))"

text \<open>\<^verbatim>\<open>sell_tokens\<close>, lines 729-986: from the path on, after the Approval Gate.\<close>

definition sell_with_approval ::
  "manager \<Rightarrow> web3 \<Rightarrow> string \<Rightarrow> address \<Rightarrow> string \<Rightarrow> rat \<Rightarrow> int \<Rightarrow> string \<Rightarrow> string \<Rightarrow> rat \<Rightarrow>
   (result, result) prog" where
  "sell_with_approval m w chain trading_contract token_address token_amount token_amount_wei
     user_address private_key slippage =
     (case wrapped_native chain of
       None \<Rightarrow> ret (Failure (UnsupportedChain chain))
     | Some wbnb_address \<Rightarrow>
         bind (lift (to_checksum_address w token_address)) (\<lambda>p0.
         bind (lift (to_checksum_address w wbnb_address)) (\<lambda>p1.
         let path = [p0, p1] in
         bind (get_deadline w) (\<lambda>deadline.
         bind (call_method (get_token_sell_estimate m w chain token_address token_amount))
           (\<lambda>sell_estimate.
         bind (lift (sell_min_native sell_estimate slippage)) (\<lambda>min_native.
         let mk = (\<lambda>min_out contract.
                     SwapExactTokensForETH contract token_amount_wei min_out path user_address
                       deadline) in
         bind (swap_function_with_fallback m w chain trading_contract (mk min_native))
           (\<lambda>(swap_function, router).
         bind (estimate_gas_with_retry w swap_function mk trading_contract router min_native
                 user_address 0 token_amount) (\<lambda>gas_estimate.
         bind (boosted_gas_price w chain) (\<lambda>gas_price.
         sell_submit w swap_function mk trading_contract router min_native gas_estimate gas_price
           user_address private_key token_amount path)))))))))"

definition sell_tokens_body ::
  "manager \<Rightarrow> web3 \<Rightarrow> string \<Rightarrow> string \<Rightarrow> rat \<Rightarrow> string \<Rightarrow> string \<Rightarrow> rat option \<Rightarrow>
   (result, result) prog" where
  "sell_tokens_body m w chain token_address token_amount user_address private_key slippage_opt =
     (if trading_contracts m chain = None then ret (Failure (ChainNotSupported chain))
      else
        let slippage = (case slippage_opt of None \<Rightarrow> 1 / 2 | Some s \<Rightarrow> s) in
        bind (lookup_set (web3_instances m) chain) (\<lambda>_.
        bind (lookup (trading_contracts m) chain) (\<lambda>trading_contract.
        bind (check_trading_contract w trading_contract) (\<lambda>_.
        if \<not> is_address w token_address then ret (Failure InvalidTokenAddress)
        else if token_amount \<le> 0 then ret (Failure InvalidAmount)
        else
          bind (try_except
                  (bind (lift (to_checksum_address w token_address)) (\<lambda>a.
                   bind (rpc (Decimals a) (\<lambda>t. decimals w t a)) (\<lambda>d.
                   lift (float_times_int token_amount (10 ^ d)))))
                  (\<lambda>e. lift (to_wei w token_amount))) (\<lambda>token_amount_wei.
          bind (call_method (get_token_balance m w chain token_address user_address))
            (\<lambda>token_balance.
          if token_balance < token_amount then ret (Failure (InsufficientBalance token_balance))
          else
            case trading_contract_address chain of
              None \<Rightarrow> ret (Failure (UnsupportedChain chain))
            | Some spender \<Rightarrow>
                bind (call_method (ensure_token_approval_for_contract m w chain token_address
                        user_address private_key token_amount_wei spender)) (\<lambda>approval_result.
                case approval_result of
                  Failure err \<Rightarrow> ret approval_result
                | _ \<Rightarrow>
                    sell_with_approval m w chain trading_contract token_address token_amount
                      token_amount_wei user_address private_key slippage)))))))"

definition sell_tokens ::
  "manager \<Rightarrow> web3 \<Rightarrow> string \<Rightarrow> string \<Rightarrow> rat \<Rightarrow> string \<Rightarrow> string \<Rightarrow> rat option \<Rightarrow>
   event list \<Rightarrow> result \<times> event list" where
  "sell_tokens m w chain token_address token_amount user_address private_key slippage_opt =
     run_trade False
       (sell_tokens_body m w chain token_address token_amount user_address private_key slippage_opt)"


section \<open>A node for the examples\<close>

text \<open>
  A node that answers every request, and a manager connected to BSC; the examples below
  change single answers of it.
\<close>

definition node0 :: web3 where
  "node0 = \<lparr>
     get_code = (\<lambda>t a. Inr ''code''),
     get_amounts_out = (\<lambda>t amount path. Inr [amount, 1000]),
     decimals = (\<lambda>t a. Inr 18),
     balance_of = (\<lambda>t a b. Inr (10 ^ 21)),
     allowance = (\<lambda>t a b c. Inr 0),
     get_block_timestamp = (\<lambda>t. Inr 1700000000),
     estimate_gas = (\<lambda>t c s v. Inr 100000),
     gas_price = (\<lambda>t. Inr 10),
     get_transaction_count = (\<lambda>t a p. Inr 7),
     build_transaction = (\<lambda>t tx. None),
     send_raw_transaction = (\<lambda>t tx. Inr ''0xabc''),
     time_now = (\<lambda>t. 1700000000),
     sign_transaction = (\<lambda>tx k. None),
     is_address = (\<lambda>s. True),
     to_checksum_address = (\<lambda>s. Inr s),
     to_wei = (\<lambda>r. Inr \<lfloor>r * 10 ^ 18\<rfloor>),
     from_wei = (\<lambda>n. Inr (of_int n / 10 ^ 18)),
     bind_function = (\<lambda>c. None)\<rparr>"

definition manager0 :: manager where
  "manager0 = \<lparr>
     web3_instances = {''BSC''},
     router_contracts = [''BSC'' \<mapsto> ''0x10ED43C718714eb63d5aA57B78B54704E256024E''],
     trading_contracts = [''BSC'' \<mapsto> ''0xec27f2173da0c7c7870a47bc545fa24ae72b7395'']\<rparr>"

definition revert_k :: exn where
  "revert_k = Exn ContractLogicError ''execution reverted: UniswapV2: K''"

definition nonce_low :: exn where
  "nonce_low = Exn OtherError ''nonce too low''"

definition node_allowed :: web3 where
  "node_allowed = node0\<lparr>allowance := (\<lambda>t a b c. Inr 100)\<rparr>"

definition node_no_quote :: web3 where
  "node_no_quote = node0\<lparr>get_amounts_out := (\<lambda>t amount path. Inl (Exn ContractLogicError ''execution reverted'')),
                         allowance := (\<lambda>t a b c. Inr (10 ^ 30))\<rparr>"

definition node_no_nonce :: web3 where
  "node_no_nonce = node0\<lparr>get_transaction_count := (\<lambda>t a p. Inl (Exn OtherError ''rpc unavailable''))\<rparr>"

definition node_k :: web3 where
  "node_k = node0\<lparr>estimate_gas := (\<lambda>t c s v. Inl revert_k)\<rparr>"

definition node_k_once :: web3 where
  "node_k_once = node0\<lparr>estimate_gas := (\<lambda>t c s v. if t = 0 then Inl revert_k else Inr 100000)\<rparr>"

definition revert_panic :: exn where
  "revert_panic = Exn ContractLogicError ''execution reverted: Panic error 0x11''"

definition node_panic :: web3 where
  "node_panic = node0\<lparr>estimate_gas := (\<lambda>t c s v. Inl revert_panic)\<rparr>"

definition node_nonce_low :: web3 where
  "node_nonce_low = node0\<lparr>send_raw_transaction := (\<lambda>t tx. Inl nonce_low)\<rparr>"

definition node_send_k :: web3 where
  "node_send_k = node0\<lparr>send_raw_transaction := (\<lambda>t tx. if t = 0 then Inl revert_k else Inr ''0xabc'')\<rparr>"

definition node_send_k_nonce :: web3 where
  "node_send_k_nonce = node0\<lparr>send_raw_transaction :=
     (\<lambda>t tx. if t = 0 then Inl revert_k else if t = 3 then Inl nonce_low else Inr ''0xabc'')\<rparr>"
section \<open>Rounding: facts about binary64\<close>

lemma rne_of_int: "rne (of_int n) = n"
  by (simp add: rne_def)

lemma rne_lower: "t - 1/2 \<le> of_int (rne t)"
proof -
  define n where "n = \<lfloor>t\<rfloor>"
  have "of_int n \<le> t" "t < of_int n + 1" unfolding n_def by linarith+
  then show ?thesis unfolding rne_def Let_def n_def[symmetric] by auto
qed

lemma rne_upper: "of_int (rne t) \<le> t + 1/2"
proof -
  define n where "n = \<lfloor>t\<rfloor>"
  have "of_int n \<le> t" "t < of_int n + 1" unfolding n_def by linarith+
  then show ?thesis unfolding rne_def Let_def n_def[symmetric] by auto
qed

lemma rne_mono: assumes "t \<le> t'" shows "rne t \<le> rne t'"
proof (cases "\<lfloor>t\<rfloor> < \<lfloor>t'\<rfloor>")
  case True
  have "rne t \<le> \<lfloor>t\<rfloor> + 1" by (simp add: rne_def Let_def)
  moreover have "\<lfloor>t'\<rfloor> \<le> rne t'" by (simp add: rne_def Let_def)
  ultimately show ?thesis using True by linarith
next
  case False
  then have eq: "\<lfloor>t\<rfloor> = \<lfloor>t'\<rfloor>" using floor_mono[OF assms] by linarith
  show ?thesis using assms by (auto simp: rne_def Let_def eq)
qed

lemma pow_le_of_int: "(2::int) ^ k \<le> n \<Longrightarrow> (2::rat) ^ k \<le> of_int n"
  by (metis of_int_le_iff of_int_numeral of_int_power)

lemma of_int_le_pow: "n \<le> (2::int) ^ k \<Longrightarrow> (of_int n :: rat) \<le> 2 ^ k"
  by (metis of_int_le_iff of_int_numeral of_int_power)

lemma bitlen_pos: "0 < n \<Longrightarrow> 0 < bitlen n"
  using bitlen_nonneg[of n] bitlen_eq_zero_iff[of n] by linarith

lemma binade_lower: assumes "0 < r" shows "2 powi binade r \<le> r"
proof (cases "1 \<le> r")
  case True
  define n where "n = \<lfloor>r\<rfloor>"
  have n: "0 < n" unfolding n_def using True by linarith
  from bitlen_bounds[OF n] have "(2::rat) ^ nat (bitlen n - 1) \<le> of_int n"
    by (intro pow_le_of_int) simp
  moreover have "of_int n \<le> r" unfolding n_def by linarith
  ultimately have "(2::rat) ^ nat (bitlen n - 1) \<le> r" by linarith
  then show ?thesis using True bitlen_pos[OF n]
    by (simp add: binade_def power_int_def n_def[symmetric])
next
  case False
  then have r1: "r < 1" by simp
  define n where "n = \<lceil>1 / r\<rceil>"
  have "1 < 1 / r" using assms r1 by simp
  then have n2: "0 < n - 1" unfolding n_def by linarith
  define k where "k = bitlen (n - 1)"
  from bitlen_bounds[OF n2] have b: "2 ^ nat (k - 1) \<le> n - 1" "n - 1 < 2 ^ nat k"
    by (simp_all add: k_def)
  have k0: "0 < k" unfolding k_def by (rule bitlen_pos[OF n2])
  have "n \<le> 2 ^ nat k" using b by linarith
  then have "(of_int n :: rat) \<le> 2 ^ nat k" by (rule of_int_le_pow)
  moreover have "1 / r \<le> of_int n" unfolding n_def by linarith
  ultimately have "1 / r \<le> 2 ^ nat k" by linarith
  then have "1 / 2 ^ nat k \<le> r" using assms
    by (simp add: field_simps)
  then show ?thesis using False k0
    by (simp add: binade_def power_int_def n_def[symmetric] k_def[symmetric] field_simps)
qed

lemma binade_upper: assumes "0 < r" shows "r < 2 powi (binade r + 1)"
proof (cases "1 \<le> r")
  case True
  define n where "n = \<lfloor>r\<rfloor>"
  have n: "0 < n" unfolding n_def using True by linarith
  from bitlen_bounds[OF n] have "n + 1 \<le> 2 ^ nat (bitlen n)" by simp
  then have "(of_int (n + 1) :: rat) \<le> 2 ^ nat (bitlen n)" by (rule of_int_le_pow)
  moreover have "r < of_int n + 1" unfolding n_def by linarith
  ultimately have "r < 2 ^ nat (bitlen n)" by simp
  then show ?thesis using True bitlen_pos[OF n]
    by (simp add: binade_def power_int_def n_def[symmetric])
next
  case False
  then have r1: "r < 1" by simp
  define n where "n = \<lceil>1 / r\<rceil>"
  have "1 < 1 / r" using assms r1 by simp
  then have n2: "0 < n - 1" unfolding n_def by linarith
  define k where "k = bitlen (n - 1)"
  from bitlen_bounds[OF n2] have b: "2 ^ nat (k - 1) \<le> n - 1" "n - 1 < 2 ^ nat k"
    by (simp_all add: k_def)
  have k0: "0 < k" unfolding k_def by (rule bitlen_pos[OF n2])
  have "(2::rat) ^ nat (k - 1) \<le> of_int (n - 1)" using b(1) by (rule pow_le_of_int)
  moreover have "of_int (n - 1) < 1 / r" unfolding n_def by linarith
  ultimately have "2 ^ nat (k - 1) < 1 / r" by linarith
  then have "r < 1 / 2 ^ nat (k - 1)" using assms
    by (simp add: field_simps)
  moreover have "2 powi (- k + 1) = (1::rat) / 2 ^ nat (k - 1)"
    using k0 by (cases "k = 1") (simp_all add: power_int_def field_simps)
  ultimately show ?thesis using False k0
    by (simp add: binade_def n_def[symmetric] k_def[symmetric])
qed

text \<open>The spacing of the doubles around r, and the rounding error.\<close>

lemma ulp_pos: "0 < (2::rat) powi k"
  by simp

lemma fl_pos_def: "r \<noteq> 0 \<Longrightarrow> fl r = of_int (rne (r / 2 powi ulp_exp r)) * 2 powi ulp_exp r"
  by (simp add: fl_def)

lemma fl_upper_ulp: assumes "r \<noteq> 0" shows "fl r \<le> r + 2 powi ulp_exp r / 2"
proof -
  define s :: rat where "s = 2 powi ulp_exp r"
  have s: "0 < s" by (simp add: s_def)
  have eq: "fl r = of_int (rne (r / s)) * s" using assms by (simp add: fl_def s_def)
  have "of_int (rne (r / s)) \<le> r / s + 1/2" by (rule rne_upper)
  then have "of_int (rne (r / s)) * s \<le> (r / s + 1/2) * s"
    using s by (simp only: mult_le_cancel_right_pos)
  also have "\<dots> = r + s / 2" using s by (simp add: field_simps)
  finally have "fl r \<le> r + s / 2" unfolding eq .
  then show ?thesis unfolding s_def .
qed

lemma fl_lower_ulp: assumes "r \<noteq> 0" shows "r - 2 powi ulp_exp r / 2 \<le> fl r"
proof -
  define s :: rat where "s = 2 powi ulp_exp r"
  have s: "0 < s" by (simp add: s_def)
  have eq: "fl r = of_int (rne (r / s)) * s" using assms by (simp add: fl_def s_def)
  have "r / s - 1/2 \<le> of_int (rne (r / s))" by (rule rne_lower)
  then have "(r / s - 1/2) * s \<le> of_int (rne (r / s)) * s"
    using s by (simp only: mult_le_cancel_right_pos)
  moreover have "(r / s - 1/2) * s = r - s / 2" using s by (simp add: field_simps)
  ultimately have "r - s / 2 \<le> fl r" unfolding eq by linarith
  then show ?thesis unfolding s_def .
qed

text \<open>Rounding keeps the binade: a positive r and its rounding lie between the same powers of two.\<close>

lemma fl_zero: "fl 0 = 0"
  by (simp add: fl_def)

lemma fl_binade_bounds:
  assumes "0 < r" and e: "e = max (binade r) (- 1022)"
  shows "fl r \<le> 2 powi (e + 1)" and "- 1022 \<le> binade r \<Longrightarrow> 2 powi e \<le> fl r" and "0 \<le> fl r"
proof -
  define s :: rat where "s = 2 powi (e - 52)"
  have s: "0 < s" by (simp add: s_def)
  have ue: "ulp_exp r = e - 52" using assms by (simp add: ulp_exp_def)
  have eq: "fl r = of_int (rne (r / s)) * s" using assms by (simp add: fl_def s_def ue)
  have "r < 2 powi (binade r + 1)" by (rule binade_upper[OF assms(1)])
  also have "\<dots> \<le> 2 powi (e + 1)" unfolding e by (intro power_int_increasing) simp_all
  finally have "r / s \<le> 2 powi (e + 1) / s" using s by (simp add: divide_right_mono)
  moreover have p: "2 powi (e + 1) / s = (2::rat) ^ 53"
    unfolding s_def by (simp add: power_int_diff[symmetric] flip: power_int_diff)
  ultimately have "r / s \<le> of_int (2 ^ 53)" by simp
  from rne_mono[OF this] have "rne (r / s) \<le> 2 ^ 53" by (simp only: rne_of_int)
  then have "(of_int (rne (r / s)) :: rat) \<le> 2 ^ 53" by (rule of_int_le_pow)
  then have "of_int (rne (r / s)) * s \<le> 2 ^ 53 * s" using s by (simp only: mult_le_cancel_right_pos)
  moreover have "2 ^ 53 * s = 2 powi (e + 1)" using p s by (simp add: field_simps)
  ultimately show "fl r \<le> 2 powi (e + 1)" unfolding eq by linarith
  have "of_int 0 \<le> r / s" using assms s by simp
  from rne_mono[OF this] have "0 \<le> rne (r / s)" by (simp only: rne_of_int)
  then show "0 \<le> fl r" unfolding eq using s by simp
  assume n: "- 1022 \<le> binade r"
  then have be: "binade r = e" using e by simp
  have "2 powi e \<le> r" using binade_lower[OF assms(1)] be by simp
  then have "2 powi e / s \<le> r / s" using s by (simp add: divide_right_mono)
  moreover have q: "2 powi e / s = (2::rat) ^ 52"
    unfolding s_def by (simp flip: power_int_diff)
  ultimately have "of_int (2 ^ 52) \<le> r / s" by simp
  from rne_mono[OF this] have "2 ^ 52 \<le> rne (r / s)" by (simp only: rne_of_int)
  then have "(2::rat) ^ 52 \<le> of_int (rne (r / s))" by (rule pow_le_of_int)
  then have "2 ^ 52 * s \<le> of_int (rne (r / s)) * s" using s by (simp only: mult_le_cancel_right_pos)
  moreover have "2 ^ 52 * s = 2 powi e" using q s by (simp add: field_simps)
  ultimately show "2 powi e \<le> fl r" unfolding eq by linarith
qed

lemma pow2_less_D: "(2::rat) powi a < 2 powi b \<Longrightarrow> a < b"
proof (rule ccontr)
  assume l: "(2::rat) powi a < 2 powi b" and "\<not> a < b"
  then have "b \<le> a" by simp
  then have "(2::rat) powi b \<le> 2 powi a" by (intro power_int_increasing) simp_all
  with l show False by simp
qed

lemma binade_ge: assumes "0 < r" "2 powi k \<le> r" shows "k \<le> binade r"
proof -
  have "2 powi k < (2::rat) powi (binade r + 1)"
    using assms(2) binade_upper[OF assms(1)] by linarith
  from pow2_less_D[OF this] show ?thesis by simp
qed

lemma binade_less: assumes "0 < r" "r < 2 powi k" shows "binade r < k"
proof -
  have "2 powi binade r < (2::rat) powi k"
    using assms(2) binade_lower[OF assms(1)] by linarith
  from pow2_less_D[OF this] show ?thesis .
qed

lemma binade_mono: assumes "0 < r" "r \<le> r'" shows "binade r \<le> binade r'"
proof -
  have "0 < r'" using assms by simp
  moreover have "2 powi binade r \<le> r'" using binade_lower[OF assms(1)] assms(2) by simp
  ultimately show ?thesis by (rule binade_ge)
qed

lemma fl_nonneg: "0 \<le> r \<Longrightarrow> 0 \<le> fl r"
  by (cases "r = 0") (simp_all add: fl_zero fl_binade_bounds(3))

lemma fl_eq_scaled:
  assumes "0 < r" "e = max (binade r) (- 1022)"
  shows "fl r = of_int (rne (r / 2 powi (e - 52))) * 2 powi (e - 52)"
  using assms by (simp add: fl_def ulp_exp_def)

lemma fl_mono: assumes "0 \<le> r" "r \<le> r'" shows "fl r \<le> fl r'"
proof (cases "r = 0")
  case True
  then show ?thesis using assms fl_nonneg[of r'] by (simp add: fl_zero)
next
  case False
  then have r: "0 < r" and r': "0 < r'" using assms by simp_all
  define e where "e = max (binade r) (- 1022)"
  define e' where "e' = max (binade r') (- 1022)"
  have le: "e \<le> e'" unfolding e_def e'_def using binade_mono[OF r assms(2)] by simp
  show ?thesis
  proof (cases "e = e'")
    case True
    define s :: rat where "s = 2 powi (e - 52)"
    have s: "0 < s" by (simp add: s_def)
    have "r / s \<le> r' / s" using assms(2) s by (simp add: divide_right_mono)
    then have "rne (r / s) \<le> rne (r' / s)" by (rule rne_mono)
    then have "(of_int (rne (r / s)) :: rat) \<le> of_int (rne (r' / s))" by simp
    then have "of_int (rne (r / s)) * s \<le> of_int (rne (r' / s)) * s"
      using s by (simp only: mult_le_cancel_right_pos)
    moreover have "fl r = of_int (rne (r / s)) * s"
      unfolding s_def by (rule fl_eq_scaled[OF r e_def])
    moreover have "fl r' = of_int (rne (r' / s)) * s"
      unfolding s_def True by (rule fl_eq_scaled[OF r' e'_def])
    ultimately show ?thesis by simp
  next
    case False
    with le have lt: "e < e'" by simp
    then have n: "- 1022 \<le> binade r'" and be: "binade r' = e'" unfolding e_def e'_def by linarith+
    have "fl r \<le> 2 powi (e + 1)" by (rule fl_binade_bounds(1)[OF r e_def])
    also have "\<dots> \<le> 2 powi e'" using lt by (intro power_int_increasing) simp_all
    also have "\<dots> \<le> fl r'" by (rule fl_binade_bounds(2)[OF r' e'_def n])
    finally show ?thesis .
  qed
qed

lemma binade_pow2: "binade (2 powi k) = k"
proof -
  have p: "0 < (2::rat) powi k" by simp
  have "k \<le> binade (2 powi k)" by (rule binade_ge[OF p]) simp
  moreover have "binade (2 powi k) < k + 1"
    by (rule binade_less[OF p]) (intro power_int_strict_increasing, simp_all)
  ultimately show ?thesis by simp
qed

lemma fl_pow2: assumes "- 1022 \<le> k" shows "fl (2 powi k) = 2 powi k"
proof -
  have p: "0 < (2::rat) powi k" by simp
  have e: "k = max (binade ((2::rat) powi k)) (- 1022)" using assms by (simp add: binade_pow2)
  have q: "(2::rat) powi k / 2 powi (k - 52) = of_int (2 ^ 52)"
    by (simp flip: power_int_diff)
  have "fl (2 powi k) = of_int (rne ((2::rat) powi k / 2 powi (k - 52))) * 2 powi (k - 52)"
    by (rule fl_eq_scaled[OF p e])
  also have "\<dots> = of_int (2 ^ 52) * 2 powi (k - 52)" unfolding q rne_of_int ..
  also have "\<dots> = 2 powi k" using q by (simp add: field_simps)
  finally show ?thesis .
qed

lemma fl_one: "fl 1 = 1"
  using fl_pow2[of 0] by simp

lemma fl_two: "fl 2 = 2"
  using fl_pow2[of 1] by simp

lemma finite_float_iff: "finite_float y \<longleftrightarrow> \<bar>y\<bar> < 2 powi 1024"
proof (cases "y = 0")
  case True
  then show ?thesis by (simp add: finite_float_def)
next
  case False
  then have p: "0 < \<bar>y\<bar>" by simp
  show ?thesis
  proof
    assume "finite_float y"
    then have "binade \<bar>y\<bar> + 1 \<le> 1024" using False by (simp add: finite_float_def)
    then have "(2::rat) powi (binade \<bar>y\<bar> + 1) \<le> 2 powi 1024"
      by (intro power_int_increasing) simp_all
    with binade_upper[OF p] show "\<bar>y\<bar> < 2 powi 1024" by linarith
  next
    assume "\<bar>y\<bar> < 2 powi 1024"
    from binade_less[OF p this] show "finite_float y" by (simp add: finite_float_def)
  qed
qed

text \<open>The relative error of one rounding, for a value in the normal range.\<close>

lemma fl_rel_upper: assumes "2 powi (- 1022) \<le> r" shows "fl r \<le> r * (1 + 1 / 2 ^ 53)"
proof -
  have "0 < (2::rat) powi (- 1022)" by (rule ulp_pos)
  then have r: "0 < r" using assms by linarith
  have n: "- 1022 \<le> binade r" by (rule binade_ge[OF r assms])
  then have ue: "ulp_exp r = binade r - 52" using r by (simp add: ulp_exp_def)
  have "fl r \<le> r + 2 powi (binade r - 52) / 2" using fl_upper_ulp[of r] r ue by simp
  moreover have "2 powi (binade r - 52) / 2 = 2 powi binade r / (2::rat) ^ 53"
    by (simp add: power_int_diff)
  moreover have "2 powi binade r / (2::rat) ^ 53 \<le> r / 2 ^ 53"
    using binade_lower[OF r] by (simp add: divide_right_mono)
  ultimately show ?thesis by (simp add: algebra_simps)
qed

lemma fl_rel_lower: assumes "2 powi (- 1022) \<le> r" shows "r * (1 - 1 / 2 ^ 53) \<le> fl r"
proof -
  have "0 < (2::rat) powi (- 1022)" by (rule ulp_pos)
  then have r: "0 < r" using assms by linarith
  have n: "- 1022 \<le> binade r" by (rule binade_ge[OF r assms])
  then have ue: "ulp_exp r = binade r - 52" using r by (simp add: ulp_exp_def)
  have "r - 2 powi (binade r - 52) / 2 \<le> fl r" using fl_lower_ulp[of r] r ue by simp
  moreover have "2 powi (binade r - 52) / 2 = 2 powi binade r / (2::rat) ^ 53"
    by (simp add: power_int_diff)
  moreover have "2 powi binade r / (2::rat) ^ 53 \<le> r / 2 ^ 53"
    using binade_lower[OF r] by (simp add: divide_right_mono)
  ultimately show ?thesis by (simp add: algebra_simps)
qed

text \<open>The Slippage Guard in floats: where its result lies.\<close>

lemma float_of_int_ok:
  assumes "0 \<le> n" "of_int n \<le> (2::rat) powi 1023"
  shows "py_float_of_int n = Inr (fl (of_int n))" and "fl (of_int n) \<le> 2 powi 1023"
    and "0 \<le> fl (of_int n)"
proof -
  have n: "(0::rat) \<le> of_int n" using assms(1) by simp
  have p: "fl (2 powi 1023) = (2::rat) powi 1023" by (rule fl_pow2) simp
  have "fl (of_int n) \<le> fl (2 powi 1023)" by (rule fl_mono[OF n assms(2)])
  then show le: "fl (of_int n) \<le> 2 powi 1023" unfolding p .
  show nn: "0 \<le> fl (of_int n)" by (rule fl_nonneg[OF n])
  have "(2::rat) powi 1023 < 2 powi 1024" by (intro power_int_strict_increasing) simp_all
  with le nn have "finite_float (fl (of_int n))" unfolding finite_float_iff by linarith
  then show "py_float_of_int n = Inr (fl (of_int n))" by (simp add: py_float_of_int_def)
qed

lemma int_times_float_ok:
  assumes "0 \<le> n" "of_int n \<le> (2::rat) powi 1023" "0 \<le> c" "c \<le> 1"
  shows "int_times_float n c = Inr \<lfloor>fl (fl (of_int n) * c)\<rfloor>"
proof -
  let ?X = "fl (of_int n)"
  note f = float_of_int_ok[OF assms(1,2)]
  have t0: "0 \<le> ?X * c" using f(3) assms(3) by simp
  have "?X * c \<le> ?X * 1" using f(3) assms(4) by (intro mult_left_mono) simp_all
  then have t1: "?X * c \<le> 2 powi 1023" using f(2) by simp
  have p: "fl (2 powi 1023) = (2::rat) powi 1023" by (rule fl_pow2) simp
  have "fl (?X * c) \<le> fl (2 powi 1023)" by (rule fl_mono[OF t0 t1])
  then have le: "fl (?X * c) \<le> 2 powi 1023" unfolding p .
  have nn: "0 \<le> fl (?X * c)" by (rule fl_nonneg[OF t0])
  have "(2::rat) powi 1023 < 2 powi 1024" by (intro power_int_strict_increasing) simp_all
  with le nn have "finite_float (fl (?X * c))" unfolding finite_float_iff by linarith
  then show ?thesis using nn by (simp add: int_times_float_def f(1) py_int_of_float_def py_int_def)
qed

lemma slip_factor:
  assumes "0 \<le> s" "s \<le> 100"
  shows "0 \<le> fl (1 - fl (s / 100))" and "fl (1 - fl (s / 100)) \<le> 1"
proof -
  have a: "0 \<le> s / 100" "s / 100 \<le> 1" using assms by simp_all
  have q0: "0 \<le> fl (s / 100)" by (rule fl_nonneg[OF a(1)])
  have "fl (s / 100) \<le> fl 1" by (rule fl_mono[OF a])
  then have q1: "fl (s / 100) \<le> 1" by (simp add: fl_one)
  have b: "0 \<le> 1 - fl (s / 100)" "1 - fl (s / 100) \<le> 1" using q0 q1 by simp_all
  show "0 \<le> fl (1 - fl (s / 100))" by (rule fl_nonneg[OF b(1)])
  have "fl (1 - fl (s / 100)) \<le> fl 1" by (rule fl_mono[OF b])
  then show "fl (1 - fl (s / 100)) \<le> 1" by (simp add: fl_one)
qed

lemma c95_bounds: "1 / 2 \<le> fl (95 / 100) \<and> fl (95 / 100) \<le> 96 / 100"
  by code_simp

lemma tiny_bounds: "1 / 2 ^ 47 \<le> fl (1 / 10 ^ 14) \<and> fl (1 - 1 / 2 ^ 47) = 1 - 1 / 2 ^ 47"
  by code_simp

lemma unit_roundoff: "(1 + 1 / 2 ^ 53) * ((1 + 1 / 2 ^ 53) * (1 - 1 / 2 ^ 47)) \<le> (1::rat)"
  by simp

lemma scaled_le:
  assumes "1 \<le> out" "0 \<le> c" "c \<le> 1 - 1 / 2 ^ 47"
  shows "fl (fl (of_int out) * c) \<le> of_int out"
proof -
  let ?X = "fl (of_int out)"
  let ?u = "1 + 1 / (2::rat) ^ 53"
  have o1: "(1::rat) \<le> of_int out" using assms(1) by simp
  have small: "(2::rat) powi (- 1022) \<le> 1" using power_int_increasing[of "- 1022" 0 "2::rat"] by simp
  have X: "?X \<le> of_int out * ?u" by (rule fl_rel_upper) (use o1 small in linarith)
  have X0: "0 \<le> ?X" by (rule fl_nonneg) (use o1 in linarith)
  have t0: "0 \<le> ?X * c" using X0 assms(2) by simp
  show ?thesis
  proof (cases "2 powi (- 1022) \<le> ?X * c")
    case False
    then have "?X * c \<le> 2 powi (- 1022)" by simp
    have p: "fl (2 powi (- 1022)) = (2::rat) powi (- 1022)" by (rule fl_pow2) simp
    from fl_mono[OF t0 \<open>?X * c \<le> 2 powi (- 1022)\<close>] have "fl (?X * c) \<le> 2 powi (- 1022)"
      unfolding p .
    with small o1 show ?thesis by linarith
  next
    case True
    have "fl (?X * c) \<le> (?X * c) * ?u" by (rule fl_rel_upper[OF True])
    also have "\<dots> \<le> ((of_int out * ?u) * c) * ?u"
      using X assms(2) by (intro mult_right_mono) simp_all
    also have "\<dots> = of_int out * (?u * (?u * c))" by (simp add: algebra_simps)
    also have "\<dots> \<le> of_int out * (?u * (?u * (1 - 1 / 2 ^ 47)))"
      using assms(3) o1 by (intro mult_left_mono) simp_all
    also have "\<dots> \<le> of_int out * 1"
      using unit_roundoff o1 by (intro mult_left_mono) simp_all
    finally show ?thesis by simp
  qed
qed

lemma guard_bounds:
  assumes "2 \<le> out" "of_int out \<le> (2::rat) powi 1023" "0 \<le> s" "s \<le> 100"
    and "fl (of_int out) = of_int out \<or> 1 / 10 ^ 12 \<le> s"
  shows "\<exists>m. slippage_guard out s = Inr m \<and> 0 < m \<and> m \<le> out"
proof -
  let ?X = "fl (of_int out)"
  let ?f = "fl (1 - fl (s / 100))"
  let ?c = "fl (95 / 100)"
  have o0: "0 \<le> out" and o1: "1 \<le> out" using assms(1) by simp_all
  note f = slip_factor[OF assms(3,4)]
  have c: "0 \<le> ?c" "?c \<le> 1" "?c \<le> 1 - 1 / 2 ^ 47" "1 / 2 \<le> ?c" using c95_bounds by simp_all
  have m0: "int_times_float out ?f = Inr \<lfloor>fl (?X * ?f)\<rfloor>"
    by (rule int_times_float_ok[OF o0 assms(2) f])
  have m1: "int_times_float out ?c = Inr \<lfloor>fl (?X * ?c)\<rfloor>"
    by (rule int_times_float_ok[OF o0 assms(2) c(1,2)])
  have X2: "2 \<le> ?X"
  proof -
    have "fl 2 \<le> ?X" by (rule fl_mono) (use assms(1) in simp_all)
    then show ?thesis by (simp add: fl_two)
  qed
  have up0: "fl (?X * ?f) \<le> of_int out"
    using assms(5)
  proof
    assume ex: "?X = of_int out"
    have "0 \<le> ?X * ?f" using X2 f(1) by simp
    moreover have "?X * ?f \<le> of_int out * 1"
      unfolding ex using f(2) o0 by (intro mult_left_mono) simp_all
    ultimately have "fl (?X * ?f) \<le> fl (of_int out * 1)" by (rule fl_mono)
    then show ?thesis using ex by simp
  next
    assume big: "1 / 10 ^ 12 \<le> s"
    have q: "1 / 2 ^ 47 \<le> fl (s / 100)"
    proof -
      have "(1::rat) / 10 ^ 14 \<le> s / 100" using big by simp
      from fl_mono[OF _ this] have "fl (1 / 10 ^ 14) \<le> fl (s / 100)" by simp
      with tiny_bounds show ?thesis by linarith
    qed
    have q1: "fl (s / 100) \<le> 1"
    proof -
      have "fl (s / 100) \<le> fl 1" by (rule fl_mono) (use assms(3,4) in simp_all)
      then show ?thesis by (simp add: fl_one)
    qed
    have "?f \<le> fl (1 - 1 / 2 ^ 47)" by (rule fl_mono) (use q q1 in simp_all)
    then have "?f \<le> 1 - 1 / 2 ^ 47" using tiny_bounds by simp
    then show ?thesis by (rule scaled_le[OF o1 f(1)])
  qed
  have up1: "fl (?X * ?c) \<le> of_int out" by (rule scaled_le[OF o1 c(1,3)])
  have lo1: "1 \<le> fl (?X * ?c)"
  proof -
    have "2 * (1 / 2) \<le> ?X * ?c" using X2 c(4) by (intro mult_mono) simp_all
    then have "1 \<le> ?X * ?c" by simp
    from fl_mono[OF _ this] show ?thesis by (simp add: fl_one)
  qed
  show ?thesis
  proof (cases "\<lfloor>fl (?X * ?f)\<rfloor> \<le> 0")
    case True
    have "0 < \<lfloor>fl (?X * ?c)\<rfloor>" using lo1 by linarith
    moreover have "\<lfloor>fl (?X * ?c)\<rfloor> \<le> out" using up1 by (simp add: floor_le_iff)
    ultimately show ?thesis using True m0 m1 by (simp add: slippage_guard_def)
  next
    case False
    moreover have "\<lfloor>fl (?X * ?f)\<rfloor> \<le> out" using up0 by (simp add: floor_le_iff)
    ultimately show ?thesis using m0 by (simp add: slippage_guard_def)
  qed
qed
section \<open>Programs: how the blocks run\<close>

lemma val_apply: "val x l = (Val x, l)" by (simp add: val_def)
lemma raise_apply: "raise e l = (Raise e, l)" by (simp add: raise_def)
lemma ret_apply: "ret r l = (Return r, l)" by (simp add: ret_def)

lemma bind_Val: "p l = (Val x, l') \<Longrightarrow> bind p f l = f x l'" by (simp add: bind_def)
lemma bind_Raise: "p l = (Raise e, l') \<Longrightarrow> bind p f l = (Raise e, l')" by (simp add: bind_def)
lemma bind_Return: "p l = (Return r, l') \<Longrightarrow> bind p f l = (Return r, l')" by (simp add: bind_def)

lemma try_Val: "p l = (Val x, l') \<Longrightarrow> try_except p h l = (Val x, l')" by (simp add: try_except_def)
lemma try_Raise: "p l = (Raise e, l') \<Longrightarrow> try_except p h l = h e l'" by (simp add: try_except_def)
lemma try_Return: "p l = (Return r, l') \<Longrightarrow> try_except p h l = (Return r, l')" by (simp add: try_except_def)

lemma call_Val: "p l = (Val x, l') \<Longrightarrow> call_method p l = (Val x, l')" by (simp add: call_method_def)
lemma call_Raise: "p l = (Raise e, l') \<Longrightarrow> call_method p l = (Raise e, l')" by (simp add: call_method_def)
lemma call_Return: "p l = (Return r, l') \<Longrightarrow> call_method p l = (Val r, l')" by (simp add: call_method_def)

lemma lift_Inr: "lift (Inr x) l = (Val x, l)" by (simp add: lift_def val_def)
lemma lift_Inl: "lift (Inl e) l = (Raise e, l)" by (simp add: lift_def raise_def)
lemma lift_unit_None: "lift_unit None l = (Val (), l)" by (simp add: lift_unit_def val_def)
lemma lift_unit_Some: "lift_unit (Some e) l = (Raise e, l)" by (simp add: lift_unit_def raise_def)

lemma rpc_Inr: "answer (length l) = Inr x \<Longrightarrow> rpc ev answer l = (Val x, l @ [ev])" by (simp add: rpc_def)
lemma rpc_Inl: "answer (length l) = Inl e \<Longrightarrow> rpc ev answer l = (Raise e, l @ [ev])" by (simp add: rpc_def)
lemma rpc_unit_None: "answer (length l) = None \<Longrightarrow> rpc_unit ev answer l = (Val (), l @ [ev])" by (simp add: rpc_unit_def)
lemma rpc_unit_Some: "answer (length l) = Some e \<Longrightarrow> rpc_unit ev answer l = (Raise e, l @ [ev])" by (simp add: rpc_unit_def)

lemmas prog_simps = val_apply raise_apply ret_apply bind_Val bind_Raise bind_Return
  try_Val try_Raise try_Return call_Val call_Raise call_Return lift_Inr lift_Inl
  lift_unit_None lift_unit_Some rpc_Inr rpc_Inl rpc_unit_None rpc_unit_Some

lemma resolve_nonce_pending:
  "get_transaction_count w (length l) user True = Inr n \<Longrightarrow>
   resolve_nonce w user l = (Val n, l @ [GetTransactionCount user True])"
  by (simp add: resolve_nonce_def prog_simps)

lemma resolve_nonce_confirmed:
  "get_transaction_count w (length l) user True = Inl e \<Longrightarrow>
   get_transaction_count w (Suc (length l)) user False = Inr n \<Longrightarrow>
   resolve_nonce w user l = (Val n, l @ [GetTransactionCount user True, GetTransactionCount user False])"
  by (simp add: resolve_nonce_def prog_simps)

lemma resolve_nonce_zero:
  "get_transaction_count w (length l) user True = Inl e \<Longrightarrow>
   get_transaction_count w (Suc (length l)) user False = Inl e2 \<Longrightarrow>
   resolve_nonce w user l = (Val 0, l @ [GetTransactionCount user True, GetTransactionCount user False])"
  by (simp add: resolve_nonce_def prog_simps)

lemma approval_noop:
  assumes "chain \<in> web3_instances m"
    and "to_checksum_address w token_address = Inr token"
    and "to_checksum_address w user_address = Inr owner"
    and "to_checksum_address w spender_address = Inr spender"
    and "allowance w (length l) token owner spender = Inr current_allowance"
    and "amount \<le> current_allowance"
  shows "ensure_token_approval_for_contract m w chain token_address user_address private_key amount
           spender_address l = (Return AlreadyApproved, l @ [Allowance token owner spender])"
  using assms by (simp add: ensure_token_approval_for_contract_def prog_simps)


lemma estimate_Inr: "estimate_gas w (length l) f sender v = Inr g \<Longrightarrow>
   estimate w f sender v l = (Val g, l @ [EstimateGas f sender v])"
  by (simp add: estimate_def prog_simps)

lemma estimate_Inl: "estimate_gas w (length l) f sender v = Inl e \<Longrightarrow>
   estimate w f sender v l = (Raise e, l @ [EstimateGas f sender v])"
  by (simp add: estimate_def prog_simps)

lemma bind_call_None: "bind_function w c = None \<Longrightarrow> bind_call w c l = (Val c, l)"
  by (simp add: bind_call_def prog_simps)

lemma bind_call_Some: "bind_function w c = Some e \<Longrightarrow> bind_call w c l = (Raise e, l)"
  by (simp add: bind_call_def prog_simps)

lemma rebuild_trading: "bind_function w (mk tc) = None \<Longrightarrow>
   rebuild_swap_function w tc router mk l = (Val (mk tc), l)"
  by (simp add: rebuild_swap_function_def prog_simps bind_call_None)

lemma rebuild_log: "\<exists>out. rebuild_swap_function w tc router mk l = (out, l)"
  by (cases "bind_function w (mk tc)"; cases router; cases "bind_function w (mk (the router))")
     (simp_all add: rebuild_swap_function_def prog_simps bind_call_None bind_call_Some)

lemma cascade_ok:
  "estimate_gas w (length l) f sender v = Inr g \<Longrightarrow>
   estimate_gas_with_retry w f mk tc router min_out sender v amount l
     = (Val g, l @ [EstimateGas f sender v])"
  by (simp add: estimate_gas_with_retry_def prog_simps estimate_Inr)

lemma cascade_panic:
  "estimate_gas w (length l) f sender v = Inl e \<Longrightarrow> has_panic (exn_msg e) \<Longrightarrow>
   estimate_gas_with_retry w f mk tc router min_out sender v amount l
     = (Return (Failure ArithmeticError), l @ [EstimateGas f sender v])"
  by (simp add: estimate_gas_with_retry_def prog_simps estimate_Inl)

lemma cascade_insufficient:
  "estimate_gas w (length l) f sender v = Inl e \<Longrightarrow> \<not> has_panic (exn_msg e) \<Longrightarrow>
   has_insufficient_output (exn_msg e) \<Longrightarrow>
   estimate_gas_with_retry w f mk tc router min_out sender v amount l
     = (Return (Failure InsufficientOutput), l @ [EstimateGas f sender v])"
  by (simp add: estimate_gas_with_retry_def prog_simps estimate_Inl)

lemma cascade_unrecognized:
  "estimate_gas w (length l) f sender v = Inl e \<Longrightarrow> \<not> has_panic (exn_msg e) \<Longrightarrow>
   \<not> has_insufficient_output (exn_msg e) \<Longrightarrow> \<not> has_k (exn_msg e) \<Longrightarrow>
   estimate_gas_with_retry w f mk tc router min_out sender v amount l
     = (Val 300000, l @ [EstimateGas f sender v])"
  by (simp add: estimate_gas_with_retry_def prog_simps estimate_Inl)

lemma cascade_state1_ok:
  assumes "estimate_gas w (length l) f sender v = Inl e"
    and "\<not> has_panic (exn_msg e)" "\<not> has_insufficient_output (exn_msg e)" "has_k (exn_msg e)"
    and "int_times_float min_out (fl (70 / 100)) = Inr m1"
    and "bind_function w (mk m1 tc) = None"
    and "estimate_gas w (Suc (length l)) (mk m1 tc) sender v = Inr g"
  shows "estimate_gas_with_retry w f mk tc router min_out sender v amount l
     = (Val 300000, l @ [EstimateGas f sender v, EstimateGas (mk m1 tc) sender v])"
  using assms
  by (simp add: estimate_gas_with_retry_def prog_simps estimate_Inl estimate_Inr rebuild_trading)

lemma cascade_state2_ok:
  assumes "estimate_gas w (length l) f sender v = Inl e"
    and "\<not> has_panic (exn_msg e)" "\<not> has_insufficient_output (exn_msg e)" "has_k (exn_msg e)"
    and "int_times_float min_out (fl (70 / 100)) = Inr m1"
    and "bind_function w (mk m1 tc) = None"
    and "estimate_gas w (Suc (length l)) (mk m1 tc) sender v = Inl e1"
    and "int_times_float min_out (fl (50 / 100)) = Inr m2"
    and "bind_function w (mk m2 tc) = None"
    and "estimate_gas w (Suc (Suc (length l))) (mk m2 tc) sender v = Inr g"
  shows "estimate_gas_with_retry w f mk tc router min_out sender v amount l
     = (Val 300000, l @ [EstimateGas f sender v, EstimateGas (mk m1 tc) sender v,
          EstimateGas (mk m2 tc) sender v])"
  using assms
  by (simp add: estimate_gas_with_retry_def prog_simps estimate_Inl estimate_Inr rebuild_trading)

lemma cascade_all_fail:
  assumes "estimate_gas w (length l) f sender v = Inl e"
    and "\<not> has_panic (exn_msg e)" "\<not> has_insufficient_output (exn_msg e)" "has_k (exn_msg e)"
    and "int_times_float min_out (fl (70 / 100)) = Inr m1"
    and "bind_function w (mk m1 tc) = None"
    and "estimate_gas w (Suc (length l)) (mk m1 tc) sender v = Inl e1"
    and "int_times_float min_out (fl (50 / 100)) = Inr m2"
    and "bind_function w (mk m2 tc) = None"
    and "estimate_gas w (Suc (Suc (length l))) (mk m2 tc) sender v = Inl e2"
  shows "estimate_gas_with_retry w f mk tc router min_out sender v amount l
     = (Return (Failure (SevereLiquidity (fl (amount * fl (1 / 10))))),
        l @ [EstimateGas f sender v, EstimateGas (mk m1 tc) sender v,
          EstimateGas (mk m2 tc) sender v])"
  using assms
  by (simp add: estimate_gas_with_retry_def prog_simps estimate_Inl estimate_Inr rebuild_trading)

lemma run_trade_Return: "p l = (Return r, l') \<Longrightarrow> run_trade b (bind p k) l = (r, l')"
  by (simp add: run_trade_def prog_simps)


lemma send_Inr: "send_raw_transaction w (length l) tx = Inr h \<Longrightarrow>
   send w tx l = (Val h, l @ [SendRawTransaction tx])"
  by (simp add: send_def prog_simps)

lemma send_Inl: "send_raw_transaction w (length l) tx = Inl e \<Longrightarrow>
   send w tx l = (Raise e, l @ [SendRawTransaction tx])"
  by (simp add: send_def prog_simps)

lemma build_None: "build_transaction w (length l) tx = None \<Longrightarrow>
   build w tx l = (Val tx, l @ [BuildTransaction tx])"
  by (simp add: build_def prog_simps)

lemma build_Some: "build_transaction w (length l) tx = Some e \<Longrightarrow>
   build w tx l = (Raise e, l @ [BuildTransaction tx])"
  by (simp add: build_def prog_simps)

lemma sign_None: "sign_transaction w tx k = None \<Longrightarrow>
   sign w tx k l = (Val tx, l @ [SignTransaction tx])"
  by (simp add: sign_def prog_simps)

lemma sign_Some: "sign_transaction w tx k = Some e \<Longrightarrow>
   sign w tx k l = (Raise e, l @ [SignTransaction tx])"
  by (simp add: sign_def prog_simps)

declare send_attempts.simps [simp del]

lemma attempts_sent:
  "send_raw_transaction w (length l) tx = Inr h \<Longrightarrow>
   send_attempts w tx mx (Suc n) l = (Return h, l @ [SendRawTransaction tx])"
  by (simp add: send_attempts.simps prog_simps send_Inr Let_def)

lemma attempts_other:
  "send_raw_transaction w (length l) tx = Inl e \<Longrightarrow> \<not> has_nonce_too_low (exn_msg e) \<Longrightarrow>
   send_attempts w tx mx (Suc n) l = (Raise e, l @ [SendRawTransaction tx])"
  by (simp add: send_attempts.simps prog_simps send_Inl Let_def)

lemma attempts_again:
  "send_raw_transaction w (length l) tx = Inl e \<Longrightarrow> has_nonce_too_low (exn_msg e) \<Longrightarrow>
   int (mx - Suc n) < int mx - 1 \<Longrightarrow>
   send_attempts w tx mx (Suc n) l = send_attempts w tx mx n (l @ [SendRawTransaction tx, Sleep 2])"
  by (simp add: send_attempts.simps prog_simps send_Inl Let_def)

lemma attempts_exhausted:
  "send_raw_transaction w (length l) tx = Inl e \<Longrightarrow> has_nonce_too_low (exn_msg e) \<Longrightarrow>
   \<not> int (mx - Suc n) < int mx - 1 \<Longrightarrow>
   send_attempts w tx mx (Suc n) l =
     (Raise (Exn OtherError (''Nonce issue after '' @ str_nat mx @ '' attempts: '' @ exn_msg e)),
      l @ [SendRawTransaction tx])"
  by (simp add: send_attempts.simps prog_simps send_Inl Let_def)

lemma str_nat_3: "str_nat 3 = ''3''"
  by code_simp

lemma three_attempts: "send_transaction_with_retry w tx 3 = send_attempts w tx 3 (Suc (Suc (Suc 0)))"
proof -
  have "(3::nat) = Suc (Suc (Suc 0))" by simp
  then show ?thesis unfolding send_transaction_with_retry_def by (rule arg_cong)
qed

lemma retry_first:
  "send_raw_transaction w (length l) tx = Inr h \<Longrightarrow>
   send_transaction_with_retry w tx 3 l = (Return h, l @ [SendRawTransaction tx])"
  by (simp add: three_attempts attempts_sent)

lemma retry_second:
  assumes "send_raw_transaction w (length l) tx = Inl e1" "has_nonce_too_low (exn_msg e1)"
    and "send_raw_transaction w (length l + 2) tx = Inr h"
  shows "send_transaction_with_retry w tx 3 l =
     (Return h, l @ [SendRawTransaction tx, Sleep 2, SendRawTransaction tx])"
proof -
  have "send_attempts w tx 3 (Suc (Suc 0)) (l @ [SendRawTransaction tx, Sleep 2])
        = (Return h, (l @ [SendRawTransaction tx, Sleep 2]) @ [SendRawTransaction tx])"
    by (rule attempts_sent) (use assms(3) in \<open>simp add: eval_nat_numeral\<close>)
  then show ?thesis using assms(1,2) by (simp add: three_attempts attempts_again)
qed

lemma retry_third:
  assumes "send_raw_transaction w (length l) tx = Inl e1" "has_nonce_too_low (exn_msg e1)"
    and "send_raw_transaction w (length l + 2) tx = Inl e2" "has_nonce_too_low (exn_msg e2)"
    and "send_raw_transaction w (length l + 4) tx = Inr h"
  shows "send_transaction_with_retry w tx 3 l =
     (Return h, l @ [SendRawTransaction tx, Sleep 2, SendRawTransaction tx, Sleep 2,
        SendRawTransaction tx])"
proof -
  let ?l2 = "l @ [SendRawTransaction tx, Sleep 2]"
  let ?l4 = "?l2 @ [SendRawTransaction tx, Sleep 2]"
  have a3: "send_attempts w tx 3 (Suc 0) ?l4 = (Return h, ?l4 @ [SendRawTransaction tx])"
    by (rule attempts_sent) (use assms(5) in \<open>simp add: eval_nat_numeral\<close>)
  have a2: "send_attempts w tx 3 (Suc (Suc 0)) ?l2 = send_attempts w tx 3 (Suc 0) ?l4"
    by (rule attempts_again[where e = e2]) (use assms(3,4) in \<open>simp_all add: eval_nat_numeral\<close>)
  have a1: "send_attempts w tx 3 (Suc (Suc (Suc 0))) l = send_attempts w tx 3 (Suc (Suc 0)) ?l2"
    by (rule attempts_again[where e = e1]) (simp_all add: assms(1,2))
  show ?thesis unfolding three_attempts a1 a2 a3 by simp
qed

lemma retry_exhausted:
  assumes "send_raw_transaction w (length l) tx = Inl e1" "has_nonce_too_low (exn_msg e1)"
    and "send_raw_transaction w (length l + 2) tx = Inl e2" "has_nonce_too_low (exn_msg e2)"
    and "send_raw_transaction w (length l + 4) tx = Inl e3" "has_nonce_too_low (exn_msg e3)"
  shows "send_transaction_with_retry w tx 3 l =
     (Raise (Exn OtherError (''Nonce issue after 3 attempts: '' @ exn_msg e3)),
      l @ [SendRawTransaction tx, Sleep 2, SendRawTransaction tx, Sleep 2,
        SendRawTransaction tx])"
proof -
  let ?l2 = "l @ [SendRawTransaction tx, Sleep 2]"
  let ?l4 = "?l2 @ [SendRawTransaction tx, Sleep 2]"
  have a3: "send_attempts w tx 3 (Suc 0) ?l4 =
      (Raise (Exn OtherError (''Nonce issue after '' @ str_nat 3 @ '' attempts: '' @ exn_msg e3)),
       ?l4 @ [SendRawTransaction tx])"
    by (rule attempts_exhausted[where e = e3]) (use assms(5,6) in \<open>simp_all add: eval_nat_numeral\<close>)
  have a2: "send_attempts w tx 3 (Suc (Suc 0)) ?l2 = send_attempts w tx 3 (Suc 0) ?l4"
    by (rule attempts_again[where e = e2]) (use assms(3,4) in \<open>simp_all add: eval_nat_numeral\<close>)
  have a1: "send_attempts w tx 3 (Suc (Suc (Suc 0))) l = send_attempts w tx 3 (Suc (Suc 0)) ?l2"
    by (rule attempts_again[where e = e1]) (simp_all add: assms(1,2))
  show ?thesis unfolding three_attempts a1 a2 a3 by (simp add: str_nat_3)
qed

text \<open>Every run of the loop sends the same signed transaction, at most n times, and sleeps.\<close>

lemma attempts_events:
  "\<exists>out evs. send_attempts w tx mx n l = (out, l @ evs)
     \<and> set evs \<subseteq> {SendRawTransaction tx, Sleep 2}
     \<and> length (filter (\<lambda>ev. ev = SendRawTransaction tx) evs) \<le> n"
proof (induction n arbitrary: l)
  case 0
  show ?case by (simp add: send_attempts.simps prog_simps)
next
  case (Suc n)
  show ?case
  proof (cases "send_raw_transaction w (length l) tx")
    case (Inr h)
    then show ?thesis by (simp add: attempts_sent)
  next
    case (Inl e)
    show ?thesis
    proof (cases "has_nonce_too_low (exn_msg e)")
      case False
      with Inl show ?thesis by (simp add: attempts_other)
    next
      case True
      show ?thesis
      proof (cases "int (mx - Suc n) < int mx - 1")
        case False
        with Inl True show ?thesis by (simp add: attempts_exhausted)
      next
        case again: True
        from Suc.IH[of "l @ [SendRawTransaction tx, Sleep 2]"]
        obtain out evs where
          r: "send_attempts w tx mx n (l @ [SendRawTransaction tx, Sleep 2])
                = (out, (l @ [SendRawTransaction tx, Sleep 2]) @ evs)"
          and s: "set evs \<subseteq> {SendRawTransaction tx, Sleep 2}"
          and c: "length (filter (\<lambda>ev. ev = SendRawTransaction tx) evs) \<le> n"
          by blast
        have "send_attempts w tx mx (Suc n) l
               = (out, l @ ([SendRawTransaction tx, Sleep 2] @ evs))"
          using Inl True again r by (simp add: attempts_again)
        moreover have "set ([SendRawTransaction tx, Sleep 2] @ evs) \<subseteq> {SendRawTransaction tx, Sleep 2}"
          using s by auto
        moreover have "length (filter (\<lambda>ev. ev = SendRawTransaction tx)
                         ([SendRawTransaction tx, Sleep 2] @ evs)) \<le> Suc n"
          using c by simp
        ultimately show ?thesis by blast
      qed
    qed
  qed
qed

lemma rebuild_first_ok:
  "sender signed_txn l = (Val h, l1) \<Longrightarrow>
   send_with_rebuild w sender is_buy signed_txn mk tc router min_out gas_estimate key l = (Val h, l1)"
  by (simp add: send_with_rebuild_def prog_simps)

lemma rebuild_other_error:
  "sender signed_txn l = (Raise e, l1) \<Longrightarrow> \<not> has_insufficient_output (exn_msg e) \<Longrightarrow>
   \<not> has_k (exn_msg e) \<Longrightarrow>
   send_with_rebuild w sender is_buy signed_txn mk tc router min_out gas_estimate key l
     = (Return (Failure (SendError (exn_msg e))), l1)"
  by (simp add: send_with_rebuild_def prog_simps Let_def)

lemma rebuild_once:
  assumes "sender signed_txn l = (Raise e, l1)"
    and "has_insufficient_output (exn_msg e) \<or> has_k (exn_msg e)"
    and "int_times_float min_out (fl (if has_k (exn_msg e) then 80 / 100 else 85 / 100)) = Inr min_retry"
    and "bind_function w (mk min_retry tc) = None"
    and "int_times_float gas_estimate (fl (16 / 10)) = Inr gas"
    and "tx' = signed_txn\<lparr>tx_call := mk min_retry tc, tx_gas := gas\<rparr>"
    and "build_transaction w (length l1) tx' = None"
    and "sign_transaction w tx' key = None"
  shows "send_with_rebuild w sender is_buy signed_txn mk tc router min_out gas_estimate key l =
     (case sender tx' (l1 @ [BuildTransaction tx', SignTransaction tx']) of
        (Val h, l2) \<Rightarrow> (Val h, l2)
      | (Raise e2, l2) \<Rightarrow> (Return (Failure (RetryFailed (error_type is_buy (exn_msg e)) (exn_msg e2))), l2)
      | (Return r, l2) \<Rightarrow> (Return r, l2))"
proof -
  have m: "(if has_k (exn_msg e) then int_times_float min_out (fl (80 / 100))
            else int_times_float min_out (fl (85 / 100))) = Inr min_retry"
    using assms(3) by (simp split: if_splits)
  obtain out l2 where s: "sender tx' (l1 @ [BuildTransaction tx', SignTransaction tx']) = (out, l2)"
    by (metis surj_pair)
  have sg: "sign_transaction w tx' key = None" by (rule assms(8))
  have bd: "build_transaction w (length l1) tx' = None" by (rule assms(7))
  have step: "send_with_rebuild w sender is_buy signed_txn mk tc router min_out gas_estimate key l =
     try_except
       (bind (rebuild_swap_function w tc router (mk min_retry)) (\<lambda>f.
        bind (lift (int_times_float gas_estimate (fl (16 / 10)))) (\<lambda>gas.
        bind (build w (signed_txn\<lparr>tx_call := f, tx_gas := gas\<rparr>)) (\<lambda>transaction_retry.
        bind (sign w transaction_retry key) (\<lambda>signed_txn_retry.
        sender signed_txn_retry)))))
       (\<lambda>e2. ret (Failure (RetryFailed (error_type is_buy (exn_msg e)) (exn_msg e2)))) l1"
    using assms(1,2) m by (simp add: send_with_rebuild_def prog_simps Let_def error_type_def)
  have inner: "bind (rebuild_swap_function w tc router (mk min_retry)) (\<lambda>f.
        bind (lift (int_times_float gas_estimate (fl (16 / 10)))) (\<lambda>gas.
        bind (build w (signed_txn\<lparr>tx_call := f, tx_gas := gas\<rparr>)) (\<lambda>transaction_retry.
        bind (sign w transaction_retry key) (\<lambda>signed_txn_retry.
        sender signed_txn_retry)))) l1 = (out, l2)"
    using s sg bd assms(5) unfolding assms(6)
    by (simp add: prog_simps rebuild_trading[where mk = "mk min_retry", OF assms(4)]
          build_None sign_None)
  show ?thesis unfolding step try_except_def inner
    by (cases out) (simp_all add: s ret_apply)
qed

lemma tick_simps:
  "n + 2 = Suc (Suc n)" "n + 3 = Suc (Suc (Suc n))" "n + 4 = Suc (Suc (Suc (Suc n)))"
  "n + 5 = Suc (Suc (Suc (Suc (Suc n))))"
  by simp_all

lemma approval_submit_nonce:
  assumes "resolve_nonce w user_address l = ((Val nonce, l1) :: (int, result) outcome \<times> event list)"
    and "to_checksum_address w user_address = Inr sender"
    and "int_times_float gas_estimate (fl (12 / 10)) = Inr gas"
    and "tx = \<lparr>tx_call = approve_function, tx_from = sender, tx_value = 0, tx_gas = gas,
               tx_gas_price = price, tx_nonce = nonce\<rparr>"
    and "build_transaction w (length l1) tx = None"
    and "sign_transaction w tx private_key = None"
    and "send_raw_transaction w (length l1 + 2) tx = Inr h"
  shows "approval_submit w approve_function gas_estimate price user_address private_key l
     = (Return (ApprovalSent h), l1 @ [BuildTransaction tx, SignTransaction tx, SendRawTransaction tx])"
  using assms(1-3,5-7) unfolding assms(4)
  by (simp add: approval_submit_def prog_simps build_None sign_None send_Inr tick_simps)

lemma approval_sends:
  assumes "chain \<in> web3_instances m"
    and "to_checksum_address w token_address = Inr token"
    and "to_checksum_address w user_address = Inr owner"
    and "to_checksum_address w spender_address = Inr spender"
    and "allowance w (length l) token owner spender = Inr current_allowance"
    and "current_allowance < amount"
    and "bind_function w (Approve token spender amount) = None"
    and "gas_estimate = (case estimate_gas w (length l + 1) (Approve token spender amount) owner 0 of
                           Inr g \<Rightarrow> g | Inl e \<Rightarrow> 50000)"
    and "price = (case gas_price w (length l + 2) of Inr p \<Rightarrow> p | Inl e \<Rightarrow> 5000000000)"
    and "l3 = l @ [Allowance token owner spender, EstimateGas (Approve token spender amount) owner 0,
                   GasPrice]"
    and "resolve_nonce w user_address l3 = ((Val nonce, l4) :: (int, result) outcome \<times> event list)"
    and "int_times_float gas_estimate (fl (12 / 10)) = Inr gas"
    and "tx = \<lparr>tx_call = Approve token spender amount, tx_from = owner, tx_value = 0, tx_gas = gas,
               tx_gas_price = price, tx_nonce = nonce\<rparr>"
    and "build_transaction w (length l4) tx = None"
    and "sign_transaction w tx private_key = None"
    and "send_raw_transaction w (length l4 + 2) tx = Inr h"
  shows "ensure_token_approval_for_contract m w chain token_address user_address private_key amount
           spender_address l
     = (Return (ApprovalSent h), l4 @ [BuildTransaction tx, SignTransaction tx, SendRawTransaction tx])"
proof -
  have sub: "approval_submit w (Approve token spender amount) gas_estimate price user_address private_key l3
     = (Return (ApprovalSent h), l4 @ [BuildTransaction tx, SignTransaction tx, SendRawTransaction tx])"
    by (rule approval_submit_nonce[OF assms(11) assms(3) assms(12) assms(13) assms(14) assms(15) assms(16)])
  show ?thesis
  proof (cases "estimate_gas w (length l + 1) (Approve token spender amount) owner 0")
    case (Inl e)
    note eg = this
    show ?thesis
    proof (cases "gas_price w (length l + 2)")
      case (Inl e')
      with eg assms(1-9) sub show ?thesis unfolding assms(10)
        by (simp add: ensure_token_approval_for_contract_def prog_simps bind_call_None
              estimate_Inl estimate_Inr tick_simps)
    next
      case (Inr p)
      with eg assms(1-9) sub show ?thesis unfolding assms(10)
        by (simp add: ensure_token_approval_for_contract_def prog_simps bind_call_None
              estimate_Inl estimate_Inr tick_simps)
    qed
  next
    case (Inr g)
    note eg = this
    show ?thesis
    proof (cases "gas_price w (length l + 2)")
      case (Inl e')
      with eg assms(1-9) sub show ?thesis unfolding assms(10)
        by (simp add: ensure_token_approval_for_contract_def prog_simps bind_call_None
              estimate_Inl estimate_Inr tick_simps)
    next
      case (Inr p)
      with eg assms(1-9) sub show ?thesis unfolding assms(10)
        by (simp add: ensure_token_approval_for_contract_def prog_simps bind_call_None
              estimate_Inl estimate_Inr tick_simps)
    qed
  qed
qed

lemma buy_submit_ok:
  assumes "resolve_nonce w user l = ((Val nonce, l1) :: (int, result) outcome \<times> event list)"
    and "int_times_float gas_estimate (fl (15 / 10)) = Inr gas"
    and "tx = \<lparr>tx_call = swap_function, tx_from = user, tx_value = wei, tx_gas = gas,
               tx_gas_price = price, tx_nonce = nonce\<rparr>"
    and "build_transaction w (length l1) tx = None"
    and "sign_transaction w tx private_key = None"
    and "send_raw_transaction w (length l1 + 2) tx = Inr h"
    and "from_wei w min_tokens = Inr min_dec"
  shows "buy_submit w swap_function mk tc router min_tokens gas_estimate price user wei private_key
           bnb_amount estimated_tokens path l
     = (Return (BuySuccess \<lparr>br_tx_hash = h, br_bnb_amount = bnb_amount,
                 br_estimated_tokens = estimated_tokens, br_min_tokens = min_dec,
                 br_gas_estimate = gas_estimate, br_path = path\<rparr>),
        l1 @ [BuildTransaction tx, SignTransaction tx, SendRawTransaction tx])"
proof -
  have s: "send w tx (l1 @ [BuildTransaction tx, SignTransaction tx])
             = ((Val h, l1 @ [BuildTransaction tx, SignTransaction tx, SendRawTransaction tx])
                 :: (string, result) outcome \<times> event list)"
    using send_Inr[of w "l1 @ [BuildTransaction tx, SignTransaction tx]" tx h] assms(6)
    by (simp add: tick_simps)
  have r: "send_with_rebuild w (send w) True tx mk tc router min_tokens gas_estimate private_key
             (l1 @ [BuildTransaction tx, SignTransaction tx])
           = (Val h, l1 @ [BuildTransaction tx, SignTransaction tx, SendRawTransaction tx])"
    by (rule rebuild_first_ok[where sender = "send w", OF s])
  show ?thesis
    using assms(1,2,4,5,7) r unfolding assms(3)
    by (simp add: buy_submit_def prog_simps build_None sign_None)
qed

lemma sell_submit_ok:
  assumes "resolve_nonce w user l = ((Val nonce, l1) :: (int, result) outcome \<times> event list)"
    and "int_times_float gas_estimate (fl (12 / 10)) = Inr gas"
    and "tx = \<lparr>tx_call = swap_function, tx_from = user, tx_value = 0, tx_gas = gas,
               tx_gas_price = price, tx_nonce = nonce\<rparr>"
    and "build_transaction w (length l1) tx = None"
    and "sign_transaction w tx private_key = None"
    and "send_raw_transaction w (length l1 + 2) tx = Inr h"
  shows "sell_submit w swap_function mk tc router min_native gas_estimate price user private_key
           token_amount path l
     = (Return (SellSuccess \<lparr>sr_tx_hash = h, sr_token_amount = token_amount,
                 sr_gas_estimate = gas_estimate, sr_path = path\<rparr>),
        l1 @ [BuildTransaction tx, SignTransaction tx, SendRawTransaction tx])"
proof -
  have s: "call_method (send_transaction_with_retry w tx 3)
             (l1 @ [BuildTransaction tx, SignTransaction tx])
             = ((Val h, l1 @ [BuildTransaction tx, SignTransaction tx, SendRawTransaction tx])
                 :: (string, result) outcome \<times> event list)"
    using retry_first[of w "l1 @ [BuildTransaction tx, SignTransaction tx]" tx h] assms(6)
    by (simp add: tick_simps call_Return)
  have r: "send_with_rebuild w (\<lambda>tx. call_method (send_transaction_with_retry w tx 3)) False tx mk tc
             router min_native gas_estimate private_key
             (l1 @ [BuildTransaction tx, SignTransaction tx])
           = (Val h, l1 @ [BuildTransaction tx, SignTransaction tx, SendRawTransaction tx])"
    by (rule rebuild_first_ok[where sender = "\<lambda>tx. call_method (send_transaction_with_retry w tx 3)"])
       (rule s)
  show ?thesis
    using assms(1,2,4,5) r unfolding assms(3)
    by (simp add: sell_submit_def prog_simps build_None sign_None)
qed

lemma price_estimate_unroutable:
  assumes "router_contracts m chain = Some router"
    and "chain \<in> web3_instances m"
    and "to_wei w bnb_amount = Inr wei"
    and "wrapped_native chain = Some wbnb"
    and "to_checksum_address w wbnb = Inr p0"
    and "to_checksum_address w token_address = Inr p1"
    and "is_address w wbnb" "is_address w token_address"
    and "(\<exists>e. get_amounts_out w (length l) wei [p0, p1] = Inl e) \<or>
         (\<exists>xs. get_amounts_out w (length l) wei [p0, p1] = Inr xs \<and> length xs < 2)"
  shows "get_token_price_estimate m w chain token_address bnb_amount l
           = (Return None, l @ [GetAmountsOut wei [p0, p1]])"
  using assms(9)
proof (elim disjE exE conjE)
  fix e assume "get_amounts_out w (length l) wei [p0, p1] = Inl e"
  with assms(1-8) show ?thesis
    by (simp add: get_token_price_estimate_def prog_simps lookup_def lookup_set_def Let_def)
next
  fix xs assume "get_amounts_out w (length l) wei [p0, p1] = Inr xs" "length xs < 2"
  with assms(1-8) show ?thesis
    by (simp add: get_token_price_estimate_def prog_simps lookup_def lookup_set_def Let_def)
qed

lemma check_contract_ok:
  "get_code w (length l) tc = Inr code \<Longrightarrow> code \<noteq> [] \<Longrightarrow>
   check_trading_contract w tc l = (Val (), l @ [GetCode tc])"
  by (simp add: check_trading_contract_def prog_simps)

lemma buy_unroutable:
  assumes "trading_contracts m chain = Some tc"
    and "get_code w (length l) tc = Inr code" "code \<noteq> []"
    and "0 < bnb_amount"
    and "router_contracts m chain = Some router"
    and "chain \<in> web3_instances m"
    and "to_wei w bnb_amount = Inr wei"
    and "wrapped_native chain = Some wbnb"
    and "to_checksum_address w wbnb = Inr p0"
    and "to_checksum_address w token_address = Inr p1"
    and "is_address w wbnb" "is_address w token_address"
    and "(\<exists>e. get_amounts_out w (length l + 1) wei [p0, p1] = Inl e) \<or>
         (\<exists>xs. get_amounts_out w (length l + 1) wei [p0, p1] = Inr xs \<and> length xs < 2)"
  shows "buy_tokens m w chain token_address bnb_amount user_address private_key slippage l
           = (Failure NoPriceEstimate, l @ [GetCode tc, GetAmountsOut wei [p0, p1]])"
proof -
  have q: "get_token_price_estimate m w chain token_address bnb_amount (l @ [GetCode tc])
           = (Return None, (l @ [GetCode tc]) @ [GetAmountsOut wei [p0, p1]])"
    by (rule price_estimate_unroutable[OF assms(5-12)]) (use assms(13) in simp)
  show ?thesis
    using assms(1-4,6,12) q
    by (simp add: buy_tokens_def buy_tokens_body_def run_trade_def prog_simps lookup_def
          lookup_set_def check_contract_ok)
qed

lemma sell_estimate_unroutable:
  assumes "router_contracts m chain = Some router"
    and "chain \<in> web3_instances m"
    and "wrapped_native chain = Some wrapped"
    and "to_checksum_address w token_address = Inr p0"
    and "to_checksum_address w wrapped = Inr p1"
    and "d = (case decimals w (length l) p0 of Inr n \<Rightarrow> n | Inl e \<Rightarrow> 18)"
    and "float_times_int token_amount (10 ^ d) = Inr amount_in_wei"
    and "(\<exists>e. get_amounts_out w (length l + 1) amount_in_wei [p0, p1] = Inl e) \<or>
         (\<exists>xs. get_amounts_out w (length l + 1) amount_in_wei [p0, p1] = Inr xs \<and> length xs < 2)"
  shows "get_token_sell_estimate m w chain token_address token_amount l
           = (Return None, l @ [Decimals p0, GetAmountsOut amount_in_wei [p0, p1]])"
proof (cases "decimals w (length l) p0")
  case (Inl e)
  from assms(8) show ?thesis
  proof (elim disjE exE conjE)
    fix e' assume "get_amounts_out w (length l + 1) amount_in_wei [p0, p1] = Inl e'"
    with assms(1-5,7) Inl show ?thesis unfolding assms(6)
      by (simp add: get_token_sell_estimate_def prog_simps lookup_def lookup_set_def Let_def)
  next
    fix xs assume "get_amounts_out w (length l + 1) amount_in_wei [p0, p1] = Inr xs" "length xs < 2"
    with assms(1-5,7) Inl show ?thesis unfolding assms(6)
      by (simp add: get_token_sell_estimate_def prog_simps lookup_def lookup_set_def Let_def)
  qed
next
  case (Inr n)
  from assms(8) show ?thesis
  proof (elim disjE exE conjE)
    fix e' assume "get_amounts_out w (length l + 1) amount_in_wei [p0, p1] = Inl e'"
    with assms(1-5,7) Inr show ?thesis unfolding assms(6)
      by (simp add: get_token_sell_estimate_def prog_simps lookup_def lookup_set_def Let_def)
  next
    fix xs assume "get_amounts_out w (length l + 1) amount_in_wei [p0, p1] = Inr xs" "length xs < 2"
    with assms(1-5,7) Inr show ?thesis unfolding assms(6)
      by (simp add: get_token_sell_estimate_def prog_simps lookup_def lookup_set_def Let_def)
  qed
qed


lemma boosted_ok: "gas_price w (length l) = Inr p \<Longrightarrow> int_times_float p (fl (3 / 2)) = Inr b \<Longrightarrow>
   boosted_gas_price w chain l = (Val b, l @ [GasPrice])"
  by (simp add: boosted_gas_price_def prog_simps)

lemma deadline_ok: "get_block_timestamp w (length l) = Inr ts \<Longrightarrow>
   get_deadline w l = (Val (ts + 1200), l @ [GetBlock])"
  by (simp add: get_deadline_def prog_simps)


lemma resolve_nonce_cases:
  "resolve_nonce w user l =
     (Val (case get_transaction_count w (length l) user True of
             Inr n \<Rightarrow> n
           | Inl e \<Rightarrow> (case get_transaction_count w (length l + 1) user False of
                         Inr n \<Rightarrow> n | Inl e2 \<Rightarrow> 0)),
      l @ (case get_transaction_count w (length l) user True of
             Inr n \<Rightarrow> [GetTransactionCount user True]
           | Inl e \<Rightarrow> [GetTransactionCount user True, GetTransactionCount user False]))"
  by (cases "get_transaction_count w (length l) user True";
      cases "get_transaction_count w (length l + 1) user False")
     (simp_all add: resolve_nonce_pending resolve_nonce_confirmed resolve_nonce_zero)


section \<open>The claims\<close>

subsection \<open>C8: the Approval Gate with a sufficient allowance\<close>

text \<open>
  C8. For every sell in which the current allowance of the spender already satisfies
  \<open>allowance \<ge> requiredAmount\<close>, the Approval Gate is a no-op: it returns success and
  submits zero transactions. In the model: when the gate reaches the allowance read (the
  chain has a client and the three addresses convert) and the node answers with an allowance
  of at least \<open>amount\<close>, the method returns \<^verbatim>\<open>{'success': True, 'message': 'Token already
  approved'}\<close> and the only request it has issued is that read-only \<open>Allowance\<close> call: no
  gas estimate, no build, no signature, no send.
\<close>

theorem approval_gate_noop:
  assumes "chain \<in> web3_instances m"
    and "to_checksum_address w token_address = Inr token"
    and "to_checksum_address w user_address = Inr owner"
    and "to_checksum_address w spender_address = Inr spender"
    and "allowance w (length l) token owner spender = Inr current_allowance"
    and "amount \<le> current_allowance"
  shows "ensure_token_approval_for_contract m w chain token_address user_address private_key amount
           spender_address l = (Return AlreadyApproved, l @ [Allowance token owner spender])"
  using assms by (rule approval_noop)

theorem approval_gate_noop_witness:
  "allowance node_allowed 0 ''0xT'' ''0xU'' ''0xS'' = Inr 100 \<and> (50::int) \<le> 100 \<and>
   ensure_token_approval_for_contract manager0 node_allowed ''BSC'' ''0xT'' ''0xU'' ''key'' 50 ''0xS'' []
     = (Return AlreadyApproved, [Allowance ''0xT'' ''0xU'' ''0xS''])"
  using approval_gate_noop[where m = manager0 and w = node_allowed and chain = "''BSC''"
      and token_address = "''0xT''" and token = "''0xT''" and user_address = "''0xU''"
      and owner = "''0xU''" and spender_address = "''0xS''" and spender = "''0xS''"
      and l = "[]" and current_allowance = 100 and amount = 50 and private_key = "''key''"]
  by (simp add: node_allowed_def node0_def manager0_def)

subsection \<open>C10: both transaction-count reads fail\<close>

text \<open>
  C10. For every trade or approval in which both the pending-inclusive and the confirmed
  transaction-count reads fail, the engine does not abort with an RPC-unavailable error: it
  proceeds to build, sign and submit the transaction with nonce 0. In the model: from the
  point where the nonce is resolved (\<open>buy_submit\<close>, \<open>sell_submit\<close>, \<open>approval_submit\<close>),
  if both reads raise and the build, the signature and the send succeed, each of the three
  methods returns its success and the transaction it has built, signed and sent carries
  \<open>tx_nonce = 0\<close>.
\<close>

theorem nonce_reads_fail_nonce_zero:
  assumes "get_transaction_count w (length l) user True = Inl e_pending"
    and "get_transaction_count w (length l + 1) user False = Inl e_confirmed"
    and "\<forall>tx. build_transaction w (length l + 2) tx = None"
    and "\<forall>tx. sign_transaction w tx private_key = None"
    and "\<forall>tx. send_raw_transaction w (length l + 4) tx = Inr h"
    and "int_times_float gas_estimate (fl (15 / 10)) = Inr gas_buy"
    and "int_times_float gas_estimate (fl (12 / 10)) = Inr gas"
    and "from_wei w min_out = Inr min_dec"
    and "to_checksum_address w user = Inr sender"
    and "reads = [GetTransactionCount user True, GetTransactionCount user False]"
    and "tx_buy = \<lparr>tx_call = swap_function, tx_from = user, tx_value = wei, tx_gas = gas_buy,
                   tx_gas_price = price, tx_nonce = 0\<rparr>"
    and "tx_sell = \<lparr>tx_call = swap_function, tx_from = user, tx_value = 0, tx_gas = gas,
                    tx_gas_price = price, tx_nonce = 0\<rparr>"
    and "tx_approve = \<lparr>tx_call = approve_function, tx_from = sender, tx_value = 0, tx_gas = gas,
                       tx_gas_price = price, tx_nonce = 0\<rparr>"
  shows "buy_submit w swap_function mk tc router min_out gas_estimate price user wei private_key
           bnb_amount estimated_tokens path l
         = (Return (BuySuccess \<lparr>br_tx_hash = h, br_bnb_amount = bnb_amount,
                     br_estimated_tokens = estimated_tokens, br_min_tokens = min_dec,
                     br_gas_estimate = gas_estimate, br_path = path\<rparr>),
            l @ reads @ [BuildTransaction tx_buy, SignTransaction tx_buy, SendRawTransaction tx_buy])
       \<and> sell_submit w swap_function mk tc router min_out gas_estimate price user private_key
           token_amount path l
         = (Return (SellSuccess \<lparr>sr_tx_hash = h, sr_token_amount = token_amount,
                     sr_gas_estimate = gas_estimate, sr_path = path\<rparr>),
            l @ reads @ [BuildTransaction tx_sell, SignTransaction tx_sell, SendRawTransaction tx_sell])
       \<and> approval_submit w approve_function gas_estimate price user private_key l
         = (Return (ApprovalSent h),
            l @ reads @ [BuildTransaction tx_approve, SignTransaction tx_approve,
              SendRawTransaction tx_approve])"
proof -
  have n: "resolve_nonce w user l = ((Val 0, l @ reads) :: (int, result) outcome \<times> event list)"
    unfolding assms(10) using assms(1,2) by (intro resolve_nonce_zero) simp_all
  have b: "\<And>tx. build_transaction w (length (l @ reads)) tx = None"
    using assms(3) by (simp add: assms(10) tick_simps)
  have s: "\<And>tx. send_raw_transaction w (length (l @ reads) + 2) tx = Inr h"
    using assms(5) by (simp add: assms(10) tick_simps)
  have g: "\<And>tx. sign_transaction w tx private_key = None" using assms(4) by simp
  have 1: "buy_submit w swap_function mk tc router min_out gas_estimate price user wei private_key
           bnb_amount estimated_tokens path l
         = (Return (BuySuccess \<lparr>br_tx_hash = h, br_bnb_amount = bnb_amount,
                     br_estimated_tokens = estimated_tokens, br_min_tokens = min_dec,
                     br_gas_estimate = gas_estimate, br_path = path\<rparr>),
            (l @ reads) @ [BuildTransaction tx_buy, SignTransaction tx_buy, SendRawTransaction tx_buy])"
    by (rule buy_submit_ok[OF n assms(6) assms(11) b g s assms(8)])
  have 2: "sell_submit w swap_function mk tc router min_out gas_estimate price user private_key
           token_amount path l
         = (Return (SellSuccess \<lparr>sr_tx_hash = h, sr_token_amount = token_amount,
                     sr_gas_estimate = gas_estimate, sr_path = path\<rparr>),
            (l @ reads) @ [BuildTransaction tx_sell, SignTransaction tx_sell, SendRawTransaction tx_sell])"
    by (rule sell_submit_ok[OF n assms(7) assms(12) b g s])
  have 3: "approval_submit w approve_function gas_estimate price user private_key l
         = (Return (ApprovalSent h),
            (l @ reads) @ [BuildTransaction tx_approve, SignTransaction tx_approve,
              SendRawTransaction tx_approve])"
    by (rule approval_submit_nonce[OF n assms(9) assms(7) assms(13) b g s])
  from 1 2 3 show ?thesis by simp
qed

lemma gas_120000: "int_times_float 100000 (fl (12 / 10)) = Inr 120000"
  by code_simp

lemma gas_150000: "int_times_float 100000 (fl (15 / 10)) = Inr 150000"
  by code_simp

theorem nonce_reads_fail_nonce_zero_witness:
  "get_transaction_count node_no_nonce 0 ''0xU'' True = Inl (Exn OtherError ''rpc unavailable'') \<and>
   get_transaction_count node_no_nonce 1 ''0xU'' False = Inl (Exn OtherError ''rpc unavailable'') \<and>
   approval_submit node_no_nonce (Approve ''0xT'' ''0xS'' 50) 100000 10 ''0xU'' ''key'' []
     = (Return (ApprovalSent ''0xabc''),
        [GetTransactionCount ''0xU'' True, GetTransactionCount ''0xU'' False,
         BuildTransaction \<lparr>tx_call = Approve ''0xT'' ''0xS'' 50, tx_from = ''0xU'', tx_value = 0,
            tx_gas = 120000, tx_gas_price = 10, tx_nonce = 0\<rparr>,
         SignTransaction \<lparr>tx_call = Approve ''0xT'' ''0xS'' 50, tx_from = ''0xU'', tx_value = 0,
            tx_gas = 120000, tx_gas_price = 10, tx_nonce = 0\<rparr>,
         SendRawTransaction \<lparr>tx_call = Approve ''0xT'' ''0xS'' 50, tx_from = ''0xU'', tx_value = 0,
            tx_gas = 120000, tx_gas_price = 10, tx_nonce = 0\<rparr>])"
  using nonce_reads_fail_nonce_zero[where w = node_no_nonce and l = "[]" and user = "''0xU''"
      and private_key = "''key''" and h = "''0xabc''" and gas_estimate = 100000
      and gas_buy = 150000 and gas = 120000 and min_out = 995 and min_dec = "995 / 10 ^ 18"
      and sender = "''0xU''" and price = 10 and approve_function = "Approve ''0xT'' ''0xS'' 50"
      and e_pending = "Exn OtherError ''rpc unavailable''"
      and e_confirmed = "Exn OtherError ''rpc unavailable''",
      OF _ _ _ _ _ gas_150000 gas_120000 _ _ refl refl refl refl]
  by (simp add: node_no_nonce_def node0_def)

end
